theory Spec2Isabelle
  imports Main "HOL-Library.AList"
begin

section \<open>Values, dictionaries, errors and the log\<close>

text \<open>
  The values that configurations of the ONNX quantization passes carry. \<open>VObj\<close> is an
  opaque object (a callable, a data-config object, an enum member of the external
  library), named by a label. \<open>INVALID\<close> and \<open>IGNORED\<close> are the two reserved
  sentinels of the search space.
\<close>

datatype pyval =
    VNone
  | VBool bool
  | VInt int
  | VStr string
  | VList "pyval list"
  | VDict "(string \<times> pyval) list"
  | VObj string
  | INVALID
  | IGNORED

text \<open>A Python \<open>dict\<close> with string keys, in insertion order; \<open>map_of\<close> reads it.\<close>

type_synonym pydict = "(string \<times> pyval) list"

text \<open>An exception object raised by code outside this file: its class, the classes it
  inherits from, and its message.\<close>

datatype pyexc = PyExc (exc_class: string) (exc_bases: "string list") (exc_msg: string)

definition isinstance :: "pyexc \<Rightarrow> string \<Rightarrow> bool" where
  "isinstance e c \<longleftrightarrow> c = exc_class e \<or> c \<in> set (exc_bases e)"

text \<open>What a function of this file can raise: its own exceptions, and an exception of
  an external call that it lets through. \<open>OlivePassError\<close> carries its cause
  (\<open>raise ... from e\<close>).\<close>

datatype error =
    KeyError string
  | AssertionError string
  | ValueError string
  | AttributeError string
  | TypeError string
  | UnboundLocalError string
  | OlivePassError string "pyexc option"
  | Propagated pyexc

datatype event =
    Warning string
  | WarningKeys string "string list"
  | Info string
  | Call string pydict

text \<open>A computation returns a value or raises, and leaves a trace of log records and
  external calls, in order.\<close>

type_synonym 'a comp = "(error + 'a) \<times> event list"

definition ret :: "'a \<Rightarrow> 'a comp" where
  "ret x = (Inr x, [])"

definition raise :: "error \<Rightarrow> 'a comp" where
  "raise e = (Inl e, [])"

definition emit :: "event \<Rightarrow> unit comp" where
  "emit ev = (Inr (), [ev])"

definition bind :: "'a comp \<Rightarrow> ('a \<Rightarrow> 'b comp) \<Rightarrow> 'b comp" where
  "bind m f =
     (case m of
        (Inl e, t) \<Rightarrow> (Inl e, t)
      | (Inr x, t) \<Rightarrow> (case f x of (r, t') \<Rightarrow> (r, t @ t')))"

text \<open>\<open>d[k]\<close>: a missing key raises \<open>KeyError\<close>.\<close>

definition getitem :: "pydict \<Rightarrow> string \<Rightarrow> pyval comp" where
  "getitem d k = (case map_of d k of None \<Rightarrow> raise (KeyError k) | Some v \<Rightarrow> ret v)"

text \<open>Python's truth value of an object.\<close>

fun truthy :: "pyval \<Rightarrow> bool" where
  "truthy VNone = False"
| "truthy (VBool b) = b"
| "truthy (VInt i) = (i \<noteq> 0)"
| "truthy (VStr s) = (s \<noteq> [])"
| "truthy (VList xs) = (xs \<noteq> [])"
| "truthy (VDict kvs) = (kvs \<noteq> [])"
| "truthy (VObj _) = True"
| "truthy INVALID = True"
| "truthy IGNORED = True"

section \<open>\<open>OnnxQuantization.validate_search_point\<close>\<close>

definition s8s8_warning :: string where
  "s8s8_warning =
     ''S8S8 with QOperator will be slow on x86-64 CPUs and should be avoided in general, try QDQ instead.''"

definition subgraph_info :: string where
  "subgraph_info = ''EnableSubgraph is not supported for static quantization.''"

text \<open>\<open>search_point or {}\<close>: \<open>None\<close> and the empty dictionary both give the empty
  dictionary.\<close>

definition point_or_empty :: "pydict option \<Rightarrow> pydict" where
  "point_or_empty sp = (case sp of None \<Rightarrow> [] | Some d \<Rightarrow> d)"

text \<open>The configuration the rules read (lines 301--303). \<open>config_at_search_point\<close>
  belongs to the base class \<open>Pass\<close>, declared outside this file, and is a parameter.\<close>

definition point_config ::
  "(pydict option \<Rightarrow> error + pydict) \<Rightarrow> pydict option \<Rightarrow> bool \<Rightarrow> error + pydict" where
  "point_config config_at_search_point search_point with_fixed_value =
     (if with_fixed_value then config_at_search_point search_point
      else Inr (point_or_empty search_point))"

text \<open>The condition of the advisory rule (lines 305--309). Python's \<open>and\<close> evaluates
  its right operand only when the left one is true, so a later key is read only then.\<close>

definition is_s8s8_qoperator :: "pydict \<Rightarrow> bool comp" where
  "is_s8s8_qoperator config =
     bind (getitem config ''weight_type'') (\<lambda>w.
       if w \<noteq> VStr ''QInt8'' then ret False
       else bind (getitem config ''activation_type'') (\<lambda>a.
         if a \<noteq> VStr ''QInt8'' then ret False
         else bind (getitem config ''quant_format'') (\<lambda>f.
           ret (f = VStr ''QOperator''))))"

definition validate_rules :: "pydict \<Rightarrow> bool comp" where
  "validate_rules config =
     bind (getitem config ''quant_mode'') (\<lambda>quant_mode.
       if quant_mode = VStr ''static'' then
         bind (is_s8s8_qoperator config) (\<lambda>slow.
         bind (if slow then emit (Warning s8s8_warning) else ret ()) (\<lambda>_.
         bind (getitem config ''EnableSubgraph'') (\<lambda>enable_subgraph.
           if enable_subgraph = VBool True
           then bind (emit (Info subgraph_info)) (\<lambda>_. ret False)
           else ret True)))
       else ret True)"

definition validate_search_point ::
  "(pydict option \<Rightarrow> error + pydict) \<Rightarrow> pydict option \<Rightarrow> bool \<Rightarrow> bool comp" where
  "validate_search_point config_at_search_point search_point with_fixed_value =
     (case point_config config_at_search_point search_point with_fixed_value of
        Inl e \<Rightarrow> raise e
      | Inr config \<Rightarrow> validate_rules config)"

text \<open>Concrete search points used to exercise the validator.\<close>

definition s8s8_point :: pydict where
  "s8s8_point =
     [(''quant_mode'', VStr ''static''), (''weight_type'', VStr ''QInt8''),
      (''activation_type'', VStr ''QInt8''), (''quant_format'', VStr ''QOperator''),
      (''EnableSubgraph'', VBool False)]"

definition subgraph_point :: pydict where
  "subgraph_point =
     [(''quant_mode'', VStr ''static''), (''weight_type'', VStr ''QUInt8''),
      (''activation_type'', VStr ''QUInt8''), (''quant_format'', VStr ''QDQ''),
      (''EnableSubgraph'', VBool True)]"

definition partial_point :: pydict where
  "partial_point =
     [(''quant_mode'', VStr ''static''), (''weight_type'', VStr ''QUInt8''),
      (''EnableSubgraph'', VBool False)]"

definition no_fixed_values :: "pydict option \<Rightarrow> error + pydict" where
  "no_fixed_values sp = Inl (AssertionError ''Search point is not in the search space.'')"

text \<open>When \<open>validate_search_point\<close> raises \<open>KeyError\<close> on a configuration: the
  keys are read in the order of the source, each only if the rules get to it.\<close>

definition missing_touched_key :: "pydict \<Rightarrow> bool" where
  "missing_touched_key config \<longleftrightarrow>
     map_of config ''quant_mode'' = None \<or>
     (map_of config ''quant_mode'' = Some (VStr ''static'') \<and>
       (map_of config ''weight_type'' = None \<or>
        (map_of config ''weight_type'' = Some (VStr ''QInt8'') \<and>
          (map_of config ''activation_type'' = None \<or>
           (map_of config ''activation_type'' = Some (VStr ''QInt8'') \<and>
            map_of config ''quant_format'' = None))) \<or>
        map_of config ''EnableSubgraph'' = None))"

section \<open>The parameter tables\<close>

text \<open>
  Modelled from the spec: the value space of a parameter. The classes \<open>Categorical\<close>,
  \<open>Boolean\<close>, \<open>Conditional\<close> and \<open>ConditionalDefault\<close> are declared in
  \<open>olive.strategy.search_parameter\<close>, outside this file; the datatype follows the
  specification's \<open>SearchValue\<close>: a fixed value, an enumerated set, or a table keyed by
  the values of parent parameters with an optional default. A plain Python value used
  as a default is \<open>Fixed\<close>; \<open>Conditional\<close> and \<open>ConditionalDefault\<close> are both
  \<open>Conditional\<close>; the third argument is \<open>None\<close> where the source passes no
  \<open>default\<close>.
\<close>

datatype search_value =
    Fixed pyval
  | Categorical "pyval list"
  | Conditional "string list" "(pyval list \<times> search_value) list" "search_value option"

text \<open>Modelled from the spec: \<open>Boolean()\<close>, whose class is not in this file, is the
  enumerated set of the two truth values.\<close>

definition Boolean :: search_value where
  "Boolean = Categorical [VBool True, VBool False]"

text \<open>Modelled from the spec: \<open>get_invalid_choice()\<close> and \<open>get_ignored_choice()\<close>,
  whose classes are not in this file, give the two reserved sentinel outcomes, carried as
  values.\<close>

definition get_invalid_choice :: search_value where
  "get_invalid_choice = Fixed INVALID"

definition get_ignored_choice :: search_value where
  "get_ignored_choice = Fixed IGNORED"

datatype param_category = NONE | DATA | OBJECT

text \<open>Modelled from the spec: \<open>PassConfigParam\<close>, whose class is not in this file, is
  the specification's \<open>ParamSpec\<close>, here without its description text: a type, a
  default expression, an optional search space and a category. A parameter declared with
  no \<open>default_value\<close> has the default \<open>None\<close>, with no \<open>searchable_values\<close> it
  has none, and with no \<open>category\<close> it has \<open>ParamCategory.NONE\<close>.\<close>

record pass_config_param =
  type_ :: string
  default_value :: search_value
  searchable_values :: "search_value option"
  category :: param_category

type_synonym param_table = "(string \<times> pass_config_param) list"

definition PassConfigParam ::
  "string \<Rightarrow> search_value \<Rightarrow> search_value option \<Rightarrow> param_category \<Rightarrow> pass_config_param" where
  "PassConfigParam t d s c =
     \<lparr>type_ = t, default_value = d, searchable_values = s, category = c\<rparr>"

text \<open>\<open>d.update(d2)\<close>: the entries of \<open>d2\<close> in order; a key already in \<open>d\<close> keeps its
  place and takes the new value, a new key goes to the end.\<close>

definition dict_update :: "('k \<times> 'v) list \<Rightarrow> ('k \<times> 'v) list \<Rightarrow> ('k \<times> 'v) list" where
  "dict_update d d2 = fold (\<lambda>(k, v). AList.update k v) d2 d"

definition onnx_quantization_config :: param_table where
  "onnx_quantization_config =
     [(''weight_type'',
         PassConfigParam ''str'' (Fixed (VStr ''QInt8''))
           (Some (Categorical [VStr ''QInt8'', VStr ''QUInt8''])) NONE),
      (''op_types_to_quantize'', PassConfigParam ''list'' (Fixed VNone) None NONE),
      (''nodes_to_quantize'', PassConfigParam ''list'' (Fixed VNone) None NONE),
      (''nodes_to_exclude'', PassConfigParam ''list'' (Fixed VNone) None NONE),
      (''per_channel'', PassConfigParam ''bool'' (Fixed (VBool False)) (Some Boolean) NONE),
      (''reduce_range'', PassConfigParam ''bool'' (Fixed (VBool False)) (Some Boolean) NONE),
      (''quant_preprocess'', PassConfigParam ''bool'' (Fixed (VBool True)) (Some Boolean) NONE)]"

definition exposed_extra_options_config :: param_table where
  "exposed_extra_options_config =
     [(''extra.Sigmoid.nnapi'', PassConfigParam ''bool'' (Fixed (VBool False)) None NONE),
      (''ActivationSymmetric'', PassConfigParam ''bool'' (Fixed (VBool False)) None NONE),
      (''WeightSymmetric'', PassConfigParam ''bool'' (Fixed (VBool True)) None NONE),
      (''EnableSubgraph'', PassConfigParam ''bool'' (Fixed (VBool False)) None NONE),
      (''ForceQuantizeNoInputCheck'', PassConfigParam ''bool'' (Fixed (VBool False)) None NONE),
      (''MatMulConstBOnly'',
         PassConfigParam ''bool''
           (Conditional [''quant_mode'']
              [([VStr ''dynamic''], Fixed (VBool True)),
               ([VStr ''static''], Fixed (VBool False))] None)
           None NONE)]"

definition extra_options_config :: param_table where
  "extra_options_config =
     [(''extra_options'', PassConfigParam ''dict'' (Fixed VNone) None NONE)]"

definition static_dataloader_config :: param_table where
  "static_dataloader_config =
     [(''data_dir'', PassConfigParam ''OLIVE_RESOURCE_ANNOTATIONS'' (Fixed VNone) None DATA),
      (''batch_size'', PassConfigParam ''int'' (Fixed (VInt 1)) None NONE),
      (''dataloader_func'', PassConfigParam ''Union[Callable, str]'' (Fixed VNone) None OBJECT),
      (''dataloader_func_kwargs'', PassConfigParam ''Dict[str, Any]'' (Fixed VNone) None NONE),
      (''data_config'', PassConfigParam ''Union[DataConfig, Dict]'' (Fixed VNone) None NONE)]"

text \<open>The search space of \<open>activation_type\<close> (lines 205--214): conditional on
  \<open>quant_format\<close> and \<open>weight_type\<close>, with the combination
  \<open>("QOperator", "QInt8")\<close> declared invalid.\<close>

definition activation_type_searchable :: search_value where
  "activation_type_searchable =
     Conditional [''quant_format'', ''weight_type'']
       [([VStr ''QDQ'', VStr ''QInt8''], Categorical [VStr ''QInt8'']),
        ([VStr ''QDQ'', VStr ''QUInt8''], Categorical [VStr ''QUInt8'']),
        ([VStr ''QOperator'', VStr ''QUInt8''], Categorical [VStr ''QUInt8'']),
        ([VStr ''QOperator'', VStr ''QInt8''], get_invalid_choice)]
       None"

definition static_optional_config :: param_table where
  "static_optional_config =
     [(''calibrate_method'',
         PassConfigParam ''str'' (Fixed (VStr ''MinMax''))
           (Some (Categorical [VStr ''MinMax'', VStr ''Entropy'', VStr ''Percentile''])) NONE),
      (''quant_format'',
         PassConfigParam ''str'' (Fixed (VStr ''QDQ''))
           (Some (Categorical [VStr ''QOperator'', VStr ''QDQ''])) NONE),
      (''activation_type'',
         PassConfigParam ''str'' (Fixed (VStr ''QInt8'')) (Some activation_type_searchable) NONE),
      (''prepare_qnn_config'', PassConfigParam ''bool'' (Fixed (VBool False)) None NONE)]"

text \<open>The body of the loop of lines 261--287: the default becomes conditional on
  \<open>quant_mode\<close>, ignored under \<open>"dynamic"\<close>; a categorical or conditional search
  space becomes conditional on \<open>quant_mode\<close> too, ignored unless it is \<open>"static"\<close>.\<close>

definition ignore_unless_static :: "pass_config_param \<Rightarrow> pass_config_param" where
  "ignore_unless_static v =
     v\<lparr>default_value :=
         Conditional [''quant_mode'']
           [([VStr ''static''], default_value v), ([VStr ''dynamic''], get_ignored_choice)]
           None,
       searchable_values :=
         (case searchable_values v of
            Some (Categorical vs) \<Rightarrow>
              Some (Conditional [''quant_mode''] [([VStr ''static''], Categorical vs)]
                      (Some get_ignored_choice))
          | Some (Conditional parents support dflt) \<Rightarrow>
              Some (Conditional (''quant_mode'' # parents)
                      (map (\<lambda>(key, sv). (VStr ''static'' # key, sv)) support)
                      (Some get_ignored_choice))
          | other \<Rightarrow> other)\<rparr>"

text \<open>Only the execution provider of an \<open>AcceleratorSpec\<close> is read here.\<close>

record accelerator_spec =
  execution_provider :: string

text \<open>\<open>OnnxQuantization._default_config\<close>. \<open>get_external_data_config()\<close> is declared
  outside this file; its table is the parameter \<open>external_data_config\<close>.\<close>

definition quant_mode_param :: pass_config_param where
  "quant_mode_param =
     PassConfigParam ''str'' (Fixed (VStr ''static''))
       (Some (Categorical [VStr ''dynamic'', VStr ''static''])) NONE"

definition OnnxQuantization_default_config ::
  "param_table \<Rightarrow> accelerator_spec \<Rightarrow> param_table" where
  "OnnxQuantization_default_config external_data_config accelerator_spec =
     (let config = [(''quant_mode'', quant_mode_param)];
          config = dict_update config onnx_quantization_config;
          config = dict_update config static_dataloader_config;
          static_optional = map (\<lambda>(k, v). (k, ignore_unless_static v)) static_optional_config;
          config = dict_update config static_optional;
          config = dict_update config exposed_extra_options_config;
          config = dict_update config extra_options_config;
          config = dict_update config external_data_config
      in config)"

text \<open>\<open>OnnxDynamicQuantization._default_config\<close>: the provider is checked first.\<close>

definition OnnxDynamicQuantization_default_config ::
  "param_table \<Rightarrow> accelerator_spec \<Rightarrow> error + param_table" where
  "OnnxDynamicQuantization_default_config external_data_config accelerator_spec =
     (if execution_provider accelerator_spec = ''QNNExecutionProvider''
      then Inl (ValueError ''QNNExecutionProvider is not supported for dynamic quantization.'')
      else
        (let config =
               [(''quant_mode'', PassConfigParam ''str'' (Fixed (VStr ''dynamic'')) None NONE)];
             config = dict_update config onnx_quantization_config;
             config = dict_update config exposed_extra_options_config;
             config = dict_update config extra_options_config;
             config = dict_update config external_data_config
         in Inr config))"

text \<open>\<open>config[k].searchable_values = sv\<close> and \<open>config[k].default_value = d\<close>: the
  entry is changed in place; a missing key raises \<open>KeyError\<close>.\<close>

definition set_searchable_values ::
  "string \<Rightarrow> search_value \<Rightarrow> param_table \<Rightarrow> error + param_table" where
  "set_searchable_values k sv config =
     (case map_of config k of
        None \<Rightarrow> Inl (KeyError k)
      | Some p \<Rightarrow> Inr (AList.update k (p\<lparr>searchable_values := Some sv\<rparr>) config))"

definition set_default_value ::
  "string \<Rightarrow> search_value \<Rightarrow> param_table \<Rightarrow> error + param_table" where
  "set_default_value k d config =
     (case map_of config k of
        None \<Rightarrow> Inl (KeyError k)
      | Some p \<Rightarrow> Inr (AList.update k (p\<lparr>default_value := d\<rparr>) config))"

definition and_then :: "error + 'a \<Rightarrow> ('a \<Rightarrow> error + 'b) \<Rightarrow> error + 'b" where
  "and_then m f = (case m of Inl e \<Rightarrow> Inl e | Inr x \<Rightarrow> f x)"

definition sixteen_bit_types :: search_value where
  "sixteen_bit_types =
     Categorical [VStr ''QInt8'', VStr ''QUInt8'', VStr ''QUInt16'', VStr ''QInt16'']"

text \<open>\<open>OnnxStaticQuantization._default_config\<close>.\<close>

definition OnnxStaticQuantization_default_config ::
  "param_table \<Rightarrow> accelerator_spec \<Rightarrow> error + param_table" where
  "OnnxStaticQuantization_default_config external_data_config accelerator_spec =
     (let config =
            [(''quant_mode'', PassConfigParam ''str'' (Fixed (VStr ''static'')) None NONE)];
          config = dict_update config onnx_quantization_config;
          config = dict_update config static_dataloader_config;
          config = dict_update config static_optional_config;
          config = dict_update config exposed_extra_options_config;
          config = dict_update config extra_options_config;
          config = dict_update config external_data_config
      in if execution_provider accelerator_spec = ''QNNExecutionProvider'' then
           and_then (set_searchable_values ''quant_format'' (Categorical [VStr ''QDQ'']) config)
             (\<lambda>config.
           and_then (set_searchable_values ''activation_type'' sixteen_bit_types config)
             (\<lambda>config.
           and_then (set_searchable_values ''weight_type'' sixteen_bit_types config)
             (\<lambda>config.
           and_then (set_default_value ''prepare_qnn_config'' (Fixed (VBool True)) config)
             (\<lambda>config.
           set_default_value ''quant_preprocess'' (Fixed (VBool False)) config))))
         else Inr config)"

section \<open>Versions\<close>

text \<open>
  A version as \<open>packaging.version.parse\<close> reads it (PEP 440): an epoch, the release
  numbers, an optional pre-release phase (\<open>a\<close>, \<open>b\<close> or \<open>rc\<close>) with its number, an
  optional post-release number, an optional development number, and an optional local
  label, split into its numeric and alphanumeric segments. So \<open>1.17.0\<close>,
  \<open>1.17.0rc1\<close>, \<open>1.17.0.dev20240118\<close> and \<open>1.16.3+cu118\<close> are all versions.
\<close>

datatype pre_phase = Alpha | Beta | ReleaseCandidate

datatype local_segment = LocalNumber nat | LocalText string

record pyversion =
  v_epoch :: nat
  v_release :: "nat list"
  v_pre :: "(pre_phase \<times> nat) option"
  v_post :: "nat option"
  v_dev :: "nat option"
  v_local :: "local_segment list option"

text \<open>\<open>version.parse("1.17.0")\<close>: a version that is only release numbers.\<close>

definition release_version :: "nat list \<Rightarrow> pyversion" where
  "release_version r =
     \<lparr>v_epoch = 0, v_release = r, v_pre = None, v_post = None, v_dev = None, v_local = None\<rparr>"

text \<open>Python's \<open><\<close> on tuples and on strings: the first position where the two differ
  decides, and a proper prefix is smaller.\<close>

fun tuple_less :: "('a \<Rightarrow> 'a \<Rightarrow> bool) \<Rightarrow> 'a list \<Rightarrow> 'a list \<Rightarrow> bool" where
  "tuple_less lt [] [] = False"
| "tuple_less lt [] (y # ys) = True"
| "tuple_less lt (x # xs) [] = False"
| "tuple_less lt (x # xs) (y # ys) = (lt x y \<or> (x = y \<and> tuple_less lt xs ys))"

definition char_less :: "char \<Rightarrow> char \<Rightarrow> bool" where
  "char_less c d \<longleftrightarrow> (of_char c :: nat) < of_char d"

definition pair_less :: "nat \<times> nat \<Rightarrow> nat \<times> nat \<Rightarrow> bool" where
  "pair_less a b \<longleftrightarrow> fst a < fst b \<or> (fst a = fst b \<and> snd a < snd b)"

text \<open>
  The comparison key of a version (\<open>_cmpkey\<close> of \<open>packaging.version\<close>), component by
  component. Trailing zeros of the release do not count. A development release with
  neither pre- nor post-release part sorts before every pre-release, and a version with
  no pre-release part after every pre-release; the phases are ordered \<open>a < b < rc\<close>.
  No post-release part sorts before every post-release, no development part after every
  development release, no local label before every local label; in a local label an
  alphanumeric segment sorts before a numeric one.
\<close>

definition release_key :: "pyversion \<Rightarrow> nat list" where
  "release_key v = rev (dropWhile (\<lambda>n. n = 0) (rev (v_release v)))"

definition phase_rank :: "pre_phase \<Rightarrow> nat" where
  "phase_rank ph = (case ph of Alpha \<Rightarrow> 1 | Beta \<Rightarrow> 2 | ReleaseCandidate \<Rightarrow> 3)"

definition pre_key :: "pyversion \<Rightarrow> nat \<times> nat" where
  "pre_key v =
     (case v_pre v of
        Some (ph, n) \<Rightarrow> (phase_rank ph, n)
      | None \<Rightarrow> if v_post v = None \<and> v_dev v \<noteq> None then (0, 0) else (4, 0))"

definition post_key :: "pyversion \<Rightarrow> nat" where
  "post_key v = (case v_post v of None \<Rightarrow> 0 | Some n \<Rightarrow> Suc n)"

definition dev_key :: "pyversion \<Rightarrow> nat \<times> nat" where
  "dev_key v = (case v_dev v of Some n \<Rightarrow> (0, n) | None \<Rightarrow> (1, 0))"

fun segment_less :: "local_segment \<Rightarrow> local_segment \<Rightarrow> bool" where
  "segment_less (LocalText s) (LocalText t) = tuple_less char_less s t"
| "segment_less (LocalText s) (LocalNumber n) = True"
| "segment_less (LocalNumber m) (LocalText t) = False"
| "segment_less (LocalNumber m) (LocalNumber n) = (m < n)"

definition local_less :: "local_segment list option \<Rightarrow> local_segment list option \<Rightarrow> bool" where
  "local_less a b =
     (case (a, b) of
        (None, None) \<Rightarrow> False
      | (None, Some t) \<Rightarrow> True
      | (Some s, None) \<Rightarrow> False
      | (Some s, Some t) \<Rightarrow> tuple_less segment_less s t)"

text \<open>\<open>a < b\<close> on versions: the keys are compared as tuples.\<close>

definition version_less :: "pyversion \<Rightarrow> pyversion \<Rightarrow> bool" where
  "version_less a b \<longleftrightarrow>
     v_epoch a < v_epoch b \<or> (v_epoch a = v_epoch b \<and>
     (tuple_less (<) (release_key a) (release_key b) \<or> (release_key a = release_key b \<and>
     (pair_less (pre_key a) (pre_key b) \<or> (pre_key a = pre_key b \<and>
     (post_key a < post_key b \<or> (post_key a = post_key b \<and>
     (pair_less (dev_key a) (dev_key b) \<or> (dev_key a = dev_key b \<and>
      local_less (v_local a) (v_local b))))))))))"

section \<open>\<open>OnnxQuantization._run_for_config\<close>\<close>

text \<open>
  What the run finds outside this file. \<open>ort_version\<close> is the version of onnxruntime
  as \<open>version.parse\<close> reads it. \<open>set_order\<close> is the order in which Python iterates over a set of strings
  (it follows the strings' hashes, which change from one interpreter process to the
  next). The other fields are the outcomes of the calls that leave this file: \<open>None\<close>
  or \<open>Inr\<close> when the call returns, the exception when it raises.
\<close>

record environment =
  ort_version :: pyversion
  external_data_keys :: "string list"
  set_order :: "string set \<Rightarrow> string list"
  preprocessed_path :: string
  preprocessed_exists :: bool
  tmp_model_path :: string
  quant_pre_process :: "pyexc option"
  save_original_model :: "pyexc option"
  call_dataloader_func :: "pyexc + pyval"
  create_calibration_dataloader :: "pyexc + pyval"
  enum_member :: "string \<Rightarrow> string \<Rightarrow> pyval option"
  get_qnn_qdq_config :: "pydict \<Rightarrow> pyexc + pydict"
  quantize_static :: "pydict \<Rightarrow> pyexc option"
  quantize_dynamic :: "pydict \<Rightarrow> pyexc option"
  save_output_model :: "pyexc + pyval"

text \<open>An external call that returns nothing, and one that returns a value: the
  exception it raises leaves the function as it is.\<close>

definition external_unit :: "string \<Rightarrow> pydict \<Rightarrow> pyexc option \<Rightarrow> unit comp" where
  "external_unit name kwargs outcome =
     bind (emit (Call name kwargs)) (\<lambda>_.
       case outcome of None \<Rightarrow> ret () | Some e \<Rightarrow> raise (Propagated e))"

definition external_value :: "string \<Rightarrow> pydict \<Rightarrow> pyexc + 'a \<Rightarrow> 'a comp" where
  "external_value name kwargs outcome =
     bind (emit (Call name kwargs)) (\<lambda>_.
       case outcome of Inr v \<Rightarrow> ret v | Inl e \<Rightarrow> raise (Propagated e))"

text \<open>Lines 331--334: static quantization needs a calibration source. \<open>or\<close> reads
  \<open>data_config\<close> only when \<open>dataloader_func\<close> is false.\<close>

definition calibration_assert_message :: string where
  "calibration_assert_message =
     ''dataloader_func or data_config is required for static quantization.''"

definition check_calibration_source :: "pydict \<Rightarrow> unit comp" where
  "check_calibration_source config =
     bind (getitem config ''dataloader_func'') (\<lambda>dataloader_func.
       if truthy dataloader_func then ret ()
       else bind (getitem config ''data_config'') (\<lambda>data_config.
         if truthy data_config then ret ()
         else raise (AssertionError calibration_assert_message)))"

text \<open>Line 339: the caller's \<open>extra_options\<close>, or an empty dictionary when it is
  false. Line 341 asks it for its keys, which only a dictionary has.\<close>

definition get_extra_options :: "pydict \<Rightarrow> pydict comp" where
  "get_extra_options config =
     bind (getitem config ''extra_options'') (\<lambda>v.
       if \<not> truthy v then ret []
       else (case v of
               VDict kvs \<Rightarrow> ret kvs
             | _ \<Rightarrow> raise (AttributeError ''keys'')))"

definition overwrite_warning :: string where
  "overwrite_warning =
     ''Extra config keys %s are already exposed in the pass config. They will be overwritten by the corresponding pass config parameter values.''"

definition exposed_keys :: "string list" where
  "exposed_keys = map fst exposed_extra_options_config"

text \<open>Lines 341--347: the keys of \<open>extra_options\<close> that are exposed parameters, as a
  set; when there are any, one warning is logged with that set as its argument.\<close>

definition overwritten_keys :: "pydict \<Rightarrow> string set" where
  "overwritten_keys extra_options = set (map fst extra_options) \<inter> set exposed_keys"

definition warn_overwritten :: "environment \<Rightarrow> pydict \<Rightarrow> unit comp" where
  "warn_overwritten env extra_options =
     (let intersection = overwritten_keys extra_options
      in if intersection \<noteq> {}
         then emit (WarningKeys overwrite_warning (set_order env intersection))
         else ret ())"


text \<open>Lines 348--350: every exposed parameter moves from the run configuration into
  \<open>extra_options\<close>.\<close>

fun move_exposed :: "string list \<Rightarrow> pydict \<Rightarrow> pydict \<Rightarrow> (pydict \<times> pydict) comp" where
  "move_exposed [] extra_options run_config = ret (extra_options, run_config)"
| "move_exposed (key # keys) extra_options run_config =
     bind (getitem run_config key) (\<lambda>v.
       move_exposed keys (AList.update key v extra_options) (AList.delete key run_config))"

text \<open>\<open>_quant_preprocess\<close> (lines 492--521): any \<open>Exception\<close> of the external
  preprocessing is logged, and the original model is saved in its place.\<close>

definition preprocess_failed_warning :: string where
  "preprocess_failed_warning =
     ''Failed to run quantization preprocessing with error of %s. Using original model.''"

definition quant_preprocess :: "environment \<Rightarrow> string \<Rightarrow> string comp" where
  "quant_preprocess env model_path =
     bind (emit (Call ''quant_pre_process''
                   [(''input_model_path'', VStr model_path),
                    (''output_model_path'', VStr (preprocessed_path env)),
                    (''auto_merge'', VBool True),
                    (''save_as_external_data'', VBool True),
                    (''verbose'', VInt 3)])) (\<lambda>_.
     bind (case quant_pre_process env of
             None \<Rightarrow> ret ()
           | Some e \<Rightarrow>
               if isinstance e ''Exception'' then
                 bind (emit (Warning preprocess_failed_warning)) (\<lambda>_.
                   external_unit ''model_proto_to_file''
                     [(''model'', VStr model_path),
                      (''output_model_path'', VStr (preprocessed_path env)),
                      (''save_as_external_data'', VBool True)]
                     (save_original_model env))
               else raise (Propagated e)) (\<lambda>_.
     ret (preprocessed_path env)))"

text \<open>Lines 352--366: the optional preprocessing, skipped when a preprocessed model
  is already there.\<close>

definition preprocess_model :: "environment \<Rightarrow> string \<Rightarrow> pydict \<Rightarrow> string comp" where
  "preprocess_model env model_path run_config =
     bind (getitem run_config ''quant_preprocess'') (\<lambda>quant_preprocess_flag.
       if truthy quant_preprocess_flag then
         (if \<not> preprocessed_exists env then
            bind (emit (Info ''Preprocessing model for quantization'')) (\<lambda>_.
              quant_preprocess env model_path)
          else
            bind (emit (Info ''Already processed model for quantization, skipping preprocessing''))
              (\<lambda>_. ret (preprocessed_path env)))
       else ret model_path)"

text \<open>The state of the run after line 366.\<close>

record run_state =
  st_is_static :: bool
  st_extra_options :: pydict
  st_run_config :: pydict
  st_model :: string

definition prepare :: "environment \<Rightarrow> string \<Rightarrow> pydict \<Rightarrow> run_state comp" where
  "prepare env model config =
     bind (getitem config ''quant_mode'') (\<lambda>quant_mode.
     bind (if quant_mode = VStr ''static'' then check_calibration_source config else ret ())
       (\<lambda>_.
     bind (get_extra_options config) (\<lambda>extra_options.
     bind (warn_overwritten env extra_options) (\<lambda>_.
     bind (move_exposed exposed_keys extra_options config) (\<lambda>(extra_options, run_config).
     bind (preprocess_model env model run_config) (\<lambda>model.
     ret \<lparr>st_is_static = (quant_mode = VStr ''static''), st_extra_options = extra_options,
          st_run_config = run_config, st_model = model\<rparr>))))))"

text \<open>Lines 368--370.\<close>

definition qnn_version_message :: string where
  "qnn_version_message = ''prepare_qnn_config is only supported for onnxruntime-qnn>=1.17.0''"

definition dict_get :: "pydict \<Rightarrow> string \<Rightarrow> pyval \<Rightarrow> pyval" where
  "dict_get d k dflt = (case map_of d k of None \<Rightarrow> dflt | Some v \<Rightarrow> v)"

definition check_qnn_version :: "environment \<Rightarrow> pydict \<Rightarrow> unit comp" where
  "check_qnn_version env run_config =
     (if truthy (dict_get run_config ''prepare_qnn_config'' (VBool False))
         \<and> version_less (ort_version env) (release_version [1, 17, 0])
      then raise (OlivePassError qnn_version_message None)
      else ret ())"

text \<open>\<open>Enum[name]\<close> for an enumeration of the external library: a name that is not a
  member raises \<open>KeyError\<close>, an unhashable key \<open>TypeError\<close>. The \<open>KeyError\<close> of a
  key that is not a string is shown with the name of the enumeration.\<close>

definition enum_lookup :: "environment \<Rightarrow> string \<Rightarrow> pyval \<Rightarrow> pyval comp" where
  "enum_lookup env cls v =
     (case v of
        VStr name \<Rightarrow>
          (case enum_member env cls name of
             Some m \<Rightarrow> ret m
           | None \<Rightarrow> raise (KeyError name))
      | VList _ \<Rightarrow> raise (TypeError ''unhashable type'')
      | VDict _ \<Rightarrow> raise (TypeError ''unhashable type'')
      | _ \<Rightarrow> raise (KeyError cls))"

definition to_enum :: "environment \<Rightarrow> string \<Rightarrow> pydict \<Rightarrow> string \<Rightarrow> pyval comp" where
  "to_enum env cls run_config key =
     bind (getitem run_config key) (\<lambda>v. enum_lookup env cls v)"

definition delete_keys :: "string list \<Rightarrow> pydict \<Rightarrow> pydict" where
  "delete_keys keys d = fold AList.delete keys d"

definition to_delete_common :: "environment \<Rightarrow> string list" where
  "to_delete_common env =
     [''quant_mode'', ''script_dir'', ''user_script'', ''quant_preprocess'', ''data_config'',
      ''prepare_qnn_config''] @ external_data_keys env"

text \<open>Lines 405--414: the keys to delete are removed where present, and for an
  onnxruntime before 1.16.0 \<open>optimize_model\<close> is set to \<open>False\<close>.\<close>

definition strip_config :: "environment \<Rightarrow> string list \<Rightarrow> pydict \<Rightarrow> pydict" where
  "strip_config env to_delete run_config =
     (let run_config = delete_keys to_delete run_config
      in if version_less (ort_version env) (release_version [1, 16, 0])
         then AList.update ''optimize_model'' (VBool False) run_config
         else run_config)"

text \<open>Lines 372--414: strings become enumeration members, \<open>extra_options\<close> is put
  back, and the keys the quantizer does not take are deleted.\<close>

definition boundary_config :: "environment \<Rightarrow> run_state \<Rightarrow> pydict comp" where
  "boundary_config env st =
     bind
       (if st_is_static st then
          bind (to_enum env ''CalibrationMethod'' (st_run_config st) ''calibrate_method'') (\<lambda>cm.
          bind (to_enum env ''QuantFormat'' (st_run_config st) ''quant_format'') (\<lambda>qf.
          bind (to_enum env ''QuantType'' (st_run_config st) ''activation_type'') (\<lambda>at.
          bind (to_enum env ''QuantType'' (st_run_config st) ''weight_type'') (\<lambda>wt.
            ret (to_delete_common env @ map fst static_dataloader_config,
                 dict_update (st_run_config st)
                   [(''calibrate_method'', cm), (''quant_format'', qf),
                    (''activation_type'', at), (''weight_type'', wt),
                    (''extra_options'', VDict (st_extra_options st))])))))
        else
          bind (to_enum env ''QuantType'' (st_run_config st) ''weight_type'') (\<lambda>wt.
            ret (to_delete_common env @ map fst static_dataloader_config
                   @ map fst static_optional_config,
                 dict_update (st_run_config st)
                   [(''weight_type'', wt), (''extra_options'', VDict (st_extra_options st))])))
       (\<lambda>(to_delete, run_config). ret (strip_config env to_delete run_config))"

text \<open>A call \<open>f(a=x, ..., **run_config)\<close>: a key of \<open>run_config\<close> that repeats an
  explicit keyword raises \<open>TypeError\<close> before \<open>f\<close> runs.\<close>

definition call_kwargs :: "pydict \<Rightarrow> pydict \<Rightarrow> pydict comp" where
  "call_kwargs explicit run_config =
     (if set (map fst explicit) \<inter> set (map fst run_config) \<noteq> {}
      then raise (TypeError ''got multiple values for keyword argument'')
      else ret (explicit @ run_config))"

text \<open>The \<open>try\<close> blocks of lines 461--470 and 472--480: an \<open>AttributeError\<close> or a
  \<open>ValueError\<close> of the quantizer is raised again as \<open>OlivePassError\<close> with the
  exception as its cause; any other exception leaves the function as it is.\<close>

definition quantize_guarded :: "string \<Rightarrow> pydict \<Rightarrow> pyexc option \<Rightarrow> unit comp" where
  "quantize_guarded name kwargs outcome =
     bind (emit (Call name kwargs)) (\<lambda>_.
       case outcome of
         None \<Rightarrow> ret ()
       | Some e \<Rightarrow>
           if isinstance e ''AttributeError'' \<or> isinstance e ''ValueError''
           then raise (OlivePassError (name @ '' failed.'') (Some e))
           else raise (Propagated e))"

text \<open>Lines 427--437: the calibration dataloader; it stays unbound when neither source
  is given.\<close>

definition get_dataloader :: "environment \<Rightarrow> pydict \<Rightarrow> pyval option comp" where
  "get_dataloader env config =
     bind (getitem config ''dataloader_func'') (\<lambda>dataloader_func.
       if truthy dataloader_func then
         bind (getitem config ''data_dir'') (\<lambda>data_dir.
         bind (getitem config ''batch_size'') (\<lambda>batch_size.
         bind (getitem config ''dataloader_func_kwargs'') (\<lambda>kwargs.
         bind (external_value ''dataloader_func''
                 [(''dataloader_func'', dataloader_func), (''data_dir'', data_dir),
                  (''batch_size'', batch_size), (''dataloader_func_kwargs'', kwargs)]
                 (call_dataloader_func env)) (\<lambda>dataloader.
           ret (Some dataloader)))))
       else
         bind (getitem config ''data_config'') (\<lambda>data_config.
           if truthy data_config then
             bind (external_value ''create_calibration_dataloader''
                     [(''data_config'', data_config)]
                     (create_calibration_dataloader env)) (\<lambda>dataloader.
               ret (Some dataloader))
           else ret None))"

definition bound :: "string \<Rightarrow> pyval option \<Rightarrow> pyval comp" where
  "bound name v = (case v of None \<Rightarrow> raise (UnboundLocalError name) | Some x \<Rightarrow> ret x)"

definition is_public :: "string \<times> pyval \<Rightarrow> bool" where
  "is_public kv = (case fst kv of [] \<Rightarrow> True | c # _ \<Rightarrow> c \<noteq> CHR ''_'')"

text \<open>Lines 439--456: with \<open>prepare_qnn_config\<close> the run configuration is replaced by
  the public attributes of the configuration that the external library generates.\<close>

definition qnn_run_config ::
  "environment \<Rightarrow> pydict \<Rightarrow> string \<Rightarrow> pyval option \<Rightarrow> pydict \<Rightarrow> pydict comp" where
  "qnn_run_config env config model dataloader run_config =
     bind (getitem config ''prepare_qnn_config'') (\<lambda>prepare_qnn_config.
       if truthy prepare_qnn_config then
         bind (bound ''dataloader'' dataloader) (\<lambda>reader.
         bind (getitem run_config ''calibrate_method'') (\<lambda>cm.
         bind (getitem run_config ''activation_type'') (\<lambda>at.
         bind (getitem run_config ''weight_type'') (\<lambda>wt.
         bind (getitem run_config ''per_channel'') (\<lambda>pc.
         bind (external_value ''get_qnn_qdq_config''
                 [(''model_input'', VStr model), (''calibration_data_reader'', reader),
                  (''calibrate_method'', cm), (''activation_type'', at),
                  (''weight_type'', wt), (''per_channel'', pc)]
                 (get_qnn_qdq_config env
                    [(''model_input'', VStr model), (''calibration_data_reader'', reader),
                     (''calibrate_method'', cm), (''activation_type'', at),
                     (''weight_type'', wt), (''per_channel'', pc)])) (\<lambda>members.
           ret (AList.delete ''calibration_data_reader'' (filter is_public members))))))))
       else ret run_config)"

text \<open>The explicit keyword arguments of the two quantizer calls.\<close>

definition dynamic_explicit :: "environment \<Rightarrow> string \<Rightarrow> pydict" where
  "dynamic_explicit env model =
     [(''model_input'', VStr model), (''model_output'', VStr (tmp_model_path env)),
      (''use_external_data_format'', VBool True)]"

definition static_explicit :: "environment \<Rightarrow> string \<Rightarrow> pyval \<Rightarrow> pydict" where
  "static_explicit env model reader =
     [(''model_input'', VStr model), (''model_output'', VStr (tmp_model_path env)),
      (''calibration_data_reader'', reader), (''use_external_data_format'', VBool True)]"

text \<open>Lines 424--470.\<close>

definition run_static :: "environment \<Rightarrow> pydict \<Rightarrow> string \<Rightarrow> pydict \<Rightarrow> unit comp" where
  "run_static env config model run_config =
     bind (get_dataloader env config) (\<lambda>dataloader.
     bind (qnn_run_config env config model dataloader run_config) (\<lambda>run_config.
     bind (bound ''dataloader'' dataloader) (\<lambda>reader.
     bind (call_kwargs (static_explicit env model reader)
             (delete_keys [''calibration_data_reader'', ''use_external_data_format'']
                run_config)) (\<lambda>kwargs.
       quantize_guarded ''quantize_static'' kwargs (quantize_static env kwargs)))))"

text \<open>Lines 471--480.\<close>

definition run_dynamic :: "environment \<Rightarrow> string \<Rightarrow> pydict \<Rightarrow> unit comp" where
  "run_dynamic env model run_config =
     bind (call_kwargs (dynamic_explicit env model) run_config) (\<lambda>kwargs.
       quantize_guarded ''quantize_dynamic'' kwargs (quantize_dynamic env kwargs))"

text \<open>\<open>_run_for_config\<close>. Path arithmetic, the creation of temporary directories and
  the imports are not part of the model; loading the quantized model and saving it to
  the output path is the one call \<open>model_proto_to_olive_model\<close>.\<close>

definition run_for_config :: "environment \<Rightarrow> string \<Rightarrow> pydict \<Rightarrow> pyval comp" where
  "run_for_config env model config =
     bind (prepare env model config) (\<lambda>st.
     bind (check_qnn_version env (st_run_config st)) (\<lambda>_.
     bind (boundary_config env st) (\<lambda>run_config.
     bind (if st_is_static st then run_static env config (st_model st) run_config
           else run_dynamic env (st_model st) run_config) (\<lambda>_.
       external_value ''model_proto_to_olive_model'' config (save_output_model env)))))"

text \<open>The run replaces its configuration by the generated QNN configuration (lines
  439--456) when the mode is static and \<open>prepare_qnn_config\<close> is true.\<close>

definition takes_qnn_path :: "pydict \<Rightarrow> bool" where
  "takes_qnn_path config \<longleftrightarrow>
     map_of config ''quant_mode'' = Some (VStr ''static'')
     \<and> (case map_of config ''prepare_qnn_config'' of Some v \<Rightarrow> truthy v | None \<Rightarrow> False)"

definition is_quantizer :: "string \<Rightarrow> bool" where
  "is_quantizer name \<longleftrightarrow> name = ''quantize_static'' \<or> name = ''quantize_dynamic''"

section \<open>Resolution of a search point\<close>

text \<open>
  Modelled from the spec: the resolver and the run-phase resolution of its sections 4.1
  and 4.3. The code that resolves a search point (\<open>olive.strategy.search_parameter\<close>
  and \<open>Pass.config_at_search_point\<close>) is not in this file; only the tables above are.
  The errors are those of section 7, and \<open>UnknownParameter\<close> for a parent that is
  neither in the point nor in the table, a case about which the specification is silent.
\<close>

datatype resolve_error =
    CyclicDependency string
  | UnresolvedCategorical
  | InvalidSearchPoint string "(string \<times> pyval) list"
  | UnknownParameter string

text \<open>
  Modelled from the spec: \<open>resolve_default\<close> of section 4.1. A fixed value resolves
  to itself; an enumerated set has no default; a conditional reads the current values of
  its parents in order, resolving depth-first a parent that the point does not hold
  (\<open>visiting\<close> lists the parameters under resolution, to detect a cycle), and continues
  in the branch whose key equals the tuple of those values, or else in its default.
  \<open>omitted\<close> is the outcome of the default that the constructor, not in this file,
  gives a conditional declared without one.
\<close>

function resolve_default ::
    "resolve_error + pyval \<Rightarrow> param_table \<Rightarrow> string list \<Rightarrow> pydict \<Rightarrow> search_value
       \<Rightarrow> resolve_error + pyval"
  and parent_value ::
    "resolve_error + pyval \<Rightarrow> param_table \<Rightarrow> string list \<Rightarrow> pydict \<Rightarrow> string
       \<Rightarrow> resolve_error + pyval"
  and parent_values ::
    "resolve_error + pyval \<Rightarrow> param_table \<Rightarrow> string list \<Rightarrow> pydict \<Rightarrow> string list
       \<Rightarrow> resolve_error + pyval list"
where
  "resolve_default omitted table visiting point (Fixed v) = Inr v"
| "resolve_default omitted table visiting point (Categorical vs) = Inl UnresolvedCategorical"
| "resolve_default omitted table visiting point (Conditional parents support dflt) =
     (case parent_values omitted table visiting point parents of
        Inl e \<Rightarrow> Inl e
      | Inr key \<Rightarrow>
          (case map_of support key of
             Some branch \<Rightarrow> resolve_default omitted table visiting point branch
           | None \<Rightarrow>
               (case dflt of
                  Some d \<Rightarrow> resolve_default omitted table visiting point d
                | None \<Rightarrow> omitted)))"
| "parent_value omitted table visiting point p =
     (case map_of point p of
        Some v \<Rightarrow> Inr v
      | None \<Rightarrow>
          if p \<in> set visiting then Inl (CyclicDependency p)
          else (case map_of table p of
                  None \<Rightarrow> Inl (UnknownParameter p)
                | Some spec \<Rightarrow>
                    resolve_default omitted table (p # visiting) point (default_value spec)))"
| "parent_values omitted table visiting point [] = Inr []"
| "parent_values omitted table visiting point (p # ps) =
     (case parent_value omitted table visiting point p of
        Inl e \<Rightarrow> Inl e
      | Inr v \<Rightarrow>
          (case parent_values omitted table visiting point ps of
             Inl e \<Rightarrow> Inl e
           | Inr vs \<Rightarrow> Inr (v # vs)))"
  by pat_completeness auto
termination
proof (relation "inv_image (less_than <*lex*> less_than <*lex*> less_than)
    (\<lambda>x. case x of
       Inl (om, tbl, vis, pt, sv) \<Rightarrow> (card (fst ` set tbl - set vis), size sv + 2, 0)
     | Inr (Inl (om, tbl, vis, pt, p)) \<Rightarrow> (card (fst ` set tbl - set vis), 0::nat, 0::nat)
     | Inr (Inr (om, tbl, vis, pt, ps)) \<Rightarrow> (card (fst ` set tbl - set vis), 1, length ps))",
    goal_cases)
  case 1
  show ?case by auto
next
  case 2
  show ?case by simp
next
  case 3
  then show ?case by simp
next
  case (4 omitted table visiting point parents support dflt key branch)
  then have "(key, branch) \<in> set support"
    by (auto dest: map_of_SomeD)
  then have "size branch \<le> size_list (size_prod (\<lambda>_. 0) size) support"
    by (rule size_list_estimation') simp
  then show ?case by simp
next
  case (5 omitted table visiting point p spec)
  then have "p \<in> fst ` set table" and "p \<notin> set visiting"
    by (auto dest: map_of_SomeD intro: rev_image_eqI)
  then have "fst ` set table - set (p # visiting) \<subset> fst ` set table - set visiting"
    by auto
  then have "card (fst ` set table - set (p # visiting)) < card (fst ` set table - set visiting)"
    by (intro psubset_card_mono) auto
  then show ?case by simp
next
  case 6
  show ?case by simp
next
  case 7
  show ?case by simp
qed

text \<open>
  Modelled from the spec: \<open>resolve_allowed\<close> of section 4.1, which gives the set of
  values that a search space allows at a point, or \<open>INVALID\<close>; an \<open>IGNORED\<close> leaf is
  propagated as well. A fixed value allows itself, an enumerated set allows its
  elements, and a conditional is followed as in \<open>resolve_default\<close>, with the values of
  its parents read from the point or resolved from their defaults.
\<close>

datatype allowed = Allowed "pyval list" | AllowedInvalid | AllowedIgnored

definition allowed_of_value :: "pyval \<Rightarrow> allowed" where
  "allowed_of_value v =
     (if v = INVALID then AllowedInvalid
      else if v = IGNORED then AllowedIgnored
      else Allowed [v])"

function resolve_allowed ::
    "resolve_error + pyval \<Rightarrow> param_table \<Rightarrow> string list \<Rightarrow> pydict \<Rightarrow> search_value
       \<Rightarrow> resolve_error + allowed" where
  "resolve_allowed omitted table visiting point (Fixed v) = Inr (allowed_of_value v)"
| "resolve_allowed omitted table visiting point (Categorical vs) = Inr (Allowed vs)"
| "resolve_allowed omitted table visiting point (Conditional parents support dflt) =
     (case parent_values omitted table visiting point parents of
        Inl e \<Rightarrow> Inl e
      | Inr key \<Rightarrow>
          (case map_of support key of
             Some branch \<Rightarrow> resolve_allowed omitted table visiting point branch
           | None \<Rightarrow>
               (case dflt of
                  Some d \<Rightarrow> resolve_allowed omitted table visiting point d
                | None \<Rightarrow>
                    (case omitted of
                       Inl e \<Rightarrow> Inl e
                     | Inr v \<Rightarrow> Inr (allowed_of_value v)))))"
  by pat_completeness auto
termination
proof (relation "measure (\<lambda>(om, tbl, vis, pt, sv). size sv)", goal_cases)
  case 1
  show ?case by simp
next
  case 2
  then show ?case by simp
next
  case (3 omitted table visiting point parents support dflt key branch)
  then have "(key, branch) \<in> set support"
    by (auto dest: map_of_SomeD)
  then have "size branch \<le> size_list (size_prod (\<lambda>_. 0) size) support"
    by (rule size_list_estimation') simp
  then show ?case by simp
qed

text \<open>Modelled from the spec: the blocking parent combination that an
  \<open>InvalidSearchPoint\<close> error reports (section 4.3, step 3): the parents of the
  parameter's conditional with the values they had.\<close>

definition blocking_parents ::
  "resolve_error + pyval \<Rightarrow> param_table \<Rightarrow> pydict \<Rightarrow> string \<Rightarrow> search_value
     \<Rightarrow> (string \<times> pyval) list" where
  "blocking_parents omitted table point name sv =
     (case sv of
        Conditional parents support dflt \<Rightarrow>
          (case parent_values omitted table [name] point parents of
             Inr key \<Rightarrow> zip parents key
           | Inl e \<Rightarrow> [])
      | _ \<Rightarrow> [])"

text \<open>
  Modelled from the spec: the resolution of one parameter that the point leaves open
  (section 4.3, steps 1 and 3). Its default is resolved; an \<open>INVALID\<close> met anywhere,
  in its search space at the point or in its default, is the error naming the
  parameter and its parents' values; a search space that is \<open>IGNORED\<close> at the point
  makes the parameter \<open>IGNORED\<close>.
\<close>

definition resolve_from_default ::
  "resolve_error + pyval \<Rightarrow> param_table \<Rightarrow> pydict \<Rightarrow> string \<Rightarrow> pass_config_param
     \<Rightarrow> resolve_error + pyval" where
  "resolve_from_default omitted table point name spec =
     (case resolve_default omitted table [name] point (default_value spec) of
        Inl e \<Rightarrow> Inl e
      | Inr v \<Rightarrow>
          if v = INVALID
          then Inl (InvalidSearchPoint name
                      (blocking_parents omitted table point name (default_value spec)))
          else Inr v)"

definition resolve_open ::
  "resolve_error + pyval \<Rightarrow> param_table \<Rightarrow> pydict \<Rightarrow> string \<Rightarrow> pass_config_param
     \<Rightarrow> resolve_error + pyval" where
  "resolve_open omitted table point name spec =
     (case searchable_values spec of
        None \<Rightarrow> resolve_from_default omitted table point name spec
      | Some sv \<Rightarrow>
          (case resolve_allowed omitted table [name] point sv of
             Inl e \<Rightarrow> Inl e
           | Inr AllowedInvalid \<Rightarrow>
               Inl (InvalidSearchPoint name (blocking_parents omitted table point name sv))
           | Inr AllowedIgnored \<Rightarrow> Inr IGNORED
           | Inr (Allowed vs) \<Rightarrow> resolve_from_default omitted table point name spec))"

text \<open>Modelled from the spec: the expression that an \<open>INVALID\<close> value held by the
  point comes from: the search space of the parameter, or its default when it has
  none.\<close>

definition value_source :: "pass_config_param \<Rightarrow> search_value" where
  "value_source spec =
     (case searchable_values spec of Some sv \<Rightarrow> sv | None \<Rightarrow> default_value spec)"

text \<open>Modelled from the spec: steps 1 and 3 of section 4.3. The parameters are taken
  in the order of the table; one that the point does not hold is resolved and stored;
  the first \<open>INVALID\<close> ends the resolution with an error naming the parameter and its
  parents' values.\<close>

fun resolve_params ::
  "resolve_error + pyval \<Rightarrow> param_table \<Rightarrow> param_table \<Rightarrow> pydict \<Rightarrow> resolve_error + pydict" where
  "resolve_params omitted table [] point = Inr point"
| "resolve_params omitted table ((name, spec) # rest) point =
     (case map_of point name of
        Some v \<Rightarrow>
          if v = INVALID
          then Inl (InvalidSearchPoint name
                      (blocking_parents omitted table point name (value_source spec)))
          else resolve_params omitted table rest point
      | None \<Rightarrow>
          (case resolve_open omitted table point name spec of
             Inl e \<Rightarrow> Inl e
           | Inr v \<Rightarrow> resolve_params omitted table rest (AList.update name v point)))"

text \<open>Modelled from the spec: step 2 of section 4.3 and the result of \<open>resolve\<close>:
  every parameter whose value is \<open>IGNORED\<close> is removed.\<close>

definition ignored_keys :: "pydict \<Rightarrow> string list" where
  "ignored_keys point = filter (\<lambda>k. map_of point k = Some IGNORED) (map fst point)"

definition resolve ::
  "resolve_error + pyval \<Rightarrow> param_table \<Rightarrow> pydict \<Rightarrow> resolve_error + pydict" where
  "resolve omitted table point =
     (case resolve_params omitted table table point of
        Inl e \<Rightarrow> Inl e
      | Inr resolved \<Rightarrow> Inr (delete_keys (ignored_keys resolved) resolved))"

text \<open>The parameters that only static quantization uses.\<close>

definition static_only_keys :: "string list" where
  "static_only_keys = map fst static_dataloader_config @ map fst static_optional_config"



text \<open>The effective configuration of a resolution that succeeded, and the empty
  dictionary for one that failed.\<close>

definition the_config :: "resolve_error + pydict \<Rightarrow> pydict" where
  "the_config r = (case r of Inr config \<Rightarrow> config | Inl e \<Rightarrow> [])"

section \<open>Sample environments and configurations\<close>

text \<open>An onnxruntime 1.17.0 whose calls all return, no preprocessed model in the
  cache, and sets iterated in the order of the exposed-parameter table.\<close>

definition sample_env :: environment where
  "sample_env =
     \<lparr>ort_version = release_version [1, 17, 0],
      external_data_keys =
        [''save_as_external_data'', ''all_tensors_to_one_file'', ''external_data_name''],
      set_order = (\<lambda>S. filter (\<lambda>k. k \<in> S) exposed_keys),
      preprocessed_path = ''preprocessed.onnx'',
      preprocessed_exists = False,
      tmp_model_path = ''tmp_model.onnx'',
      quant_pre_process = None,
      save_original_model = None,
      call_dataloader_func = Inr (VObj ''dataloader''),
      create_calibration_dataloader = Inr (VObj ''dataloader''),
      enum_member = (\<lambda>cls name. Some (VObj (cls @ ''.'' @ name))),
      get_qnn_qdq_config =
        (\<lambda>kwargs.
           Inr [(''_private'', VNone),
                (''activation_type'', VObj ''QuantType.QUInt16''),
                (''calibrate_method'', VObj ''CalibrationMethod.MinMax''),
                (''calibration_data_reader'', VObj ''dataloader''),
                (''extra_options'', VDict [(''MinimumRealRange'', VInt 0)]),
                (''use_external_data_format'', VBool False),
                (''weight_type'', VObj ''QuantType.QUInt8'')]),
      quantize_static = (\<lambda>kwargs. None),
      quantize_dynamic = (\<lambda>kwargs. None),
      save_output_model = Inr (VObj ''ONNXModelHandler'')\<rparr>"

definition common_values :: pydict where
  "common_values =
     [(''weight_type'', VStr ''QInt8''), (''op_types_to_quantize'', VNone),
      (''nodes_to_quantize'', VNone), (''nodes_to_exclude'', VNone),
      (''per_channel'', VBool False), (''reduce_range'', VBool False)]"

definition exposed_values :: pydict where
  "exposed_values =
     [(''extra.Sigmoid.nnapi'', VBool False), (''ActivationSymmetric'', VBool False),
      (''WeightSymmetric'', VBool True), (''EnableSubgraph'', VBool False),
      (''ForceQuantizeNoInputCheck'', VBool False), (''MatMulConstBOnly'', VBool True)]"

definition colliding_options :: pyval where
  "colliding_options =
     VDict [(''WeightSymmetric'', VBool False), (''ActivationSymmetric'', VBool True),
            (''CalibMovingAverage'', VBool True)]"

text \<open>A dynamic run whose configuration still carries static-only keys, and whose
  \<open>extra_options\<close> collide with two exposed parameters.\<close>

definition dynamic_config :: pydict where
  "dynamic_config =
     [(''quant_mode'', VStr ''dynamic'')] @ common_values @
     [(''quant_preprocess'', VBool False),
      (''data_dir'', VNone), (''batch_size'', VInt 1), (''dataloader_func'', VNone),
      (''dataloader_func_kwargs'', VNone), (''data_config'', VNone),
      (''calibrate_method'', VStr ''MinMax''), (''quant_format'', VStr ''QDQ''),
      (''activation_type'', VStr ''QInt8''), (''prepare_qnn_config'', VBool False)] @
     exposed_values @
     [(''extra_options'', colliding_options), (''save_as_external_data'', VBool False)]"

text \<open>A static run with a dataloader function; \<open>qnn\<close> sets \<open>prepare_qnn_config\<close>,
  \<open>pre\<close> sets \<open>quant_preprocess\<close>.\<close>

definition static_config :: "bool \<Rightarrow> bool \<Rightarrow> pydict" where
  "static_config qnn pre =
     [(''quant_mode'', VStr ''static'')] @ common_values @
     [(''quant_preprocess'', VBool pre),
      (''data_dir'', VStr ''data''), (''batch_size'', VInt 1),
      (''dataloader_func'', VObj ''create_dataloader''),
      (''dataloader_func_kwargs'', VNone), (''data_config'', VNone),
      (''calibrate_method'', VStr ''MinMax''), (''quant_format'', VStr ''QDQ''),
      (''activation_type'', VStr ''QInt8''), (''prepare_qnn_config'', VBool qnn)] @
     exposed_values @
     [(''extra_options'', colliding_options), (''save_as_external_data'', VBool False)]"

text \<open>The release candidate \<open>1.17.0rc1\<close> of onnxruntime, which \<open>packaging\<close> orders
  before \<open>1.17.0\<close>.\<close>

definition ort_1_17_0_rc1 :: pyversion where
  "ort_1_17_0_rc1 =
     \<lparr>v_epoch = 0, v_release = [1, 17, 0], v_pre = Some (ReleaseCandidate, 1),
      v_post = None, v_dev = None, v_local = None\<rparr>"

text \<open>A static configuration that names no calibration source.\<close>

definition uncalibrated_config :: pydict where
  "uncalibrated_config =
     [(''quant_mode'', VStr ''static''), (''dataloader_func'', VNone),
      (''data_config'', VNone)]"

definition value_error :: pyexc where
  "value_error = PyExc ''ValueError'' [''Exception'', ''BaseException''] ''unsupported''"

section \<open>Properties of the validator\<close>

lemmas comp_defs = ret_def raise_def emit_def bind_def getitem_def

text \<open>
  C4. A resolved point with \<open>quant_mode = "static"\<close>, \<open>weight_type = "QInt8"\<close>,
  \<open>activation_type = "QInt8"\<close>, \<open>quant_format = "QOperator"\<close> and an
  \<open>EnableSubgraph\<close> that is not \<open>True\<close> is accepted: the validator returns
  \<open>True\<close>, and the log holds exactly the advisory warning about the slow combination.
\<close>

theorem validate_accepts_s8s8_qoperator_with_warning:
  assumes "point_config config_at_search_point search_point with_fixed_value = Inr config"
    and "map_of config ''quant_mode'' = Some (VStr ''static'')"
    and "map_of config ''weight_type'' = Some (VStr ''QInt8'')"
    and "map_of config ''activation_type'' = Some (VStr ''QInt8'')"
    and "map_of config ''quant_format'' = Some (VStr ''QOperator'')"
    and "map_of config ''EnableSubgraph'' = Some enable_subgraph"
    and "enable_subgraph \<noteq> VBool True"
  shows "validate_search_point config_at_search_point search_point with_fixed_value
           = (Inr True, [Warning s8s8_warning])"
  using assms
  by (simp add: validate_search_point_def validate_rules_def is_s8s8_qoperator_def comp_defs)

theorem validate_accepts_s8s8_qoperator_with_warning_witness:
  "validate_search_point no_fixed_values (Some s8s8_point) False
     = (Inr True, [Warning s8s8_warning])"
  using validate_accepts_s8s8_qoperator_with_warning
          [of no_fixed_values "Some s8s8_point" False s8s8_point "VBool False"]
  by (simp add: point_config_def point_or_empty_def s8s8_point_def)

text \<open>
  C5. A resolved point with \<open>quant_mode = "static"\<close> and \<open>EnableSubgraph = True\<close>
  is rejected: the validator returns \<open>False\<close>, it does not raise, and the last log
  record gives the reason. (The advisory warning of C4 precedes it when the point is
  also the slow combination.)
\<close>

theorem validate_rejects_static_subgraph:
  assumes "point_config config_at_search_point search_point with_fixed_value = Inr config"
    and "map_of config ''quant_mode'' = Some (VStr ''static'')"
    and "map_of config ''weight_type'' = Some w"
    and "map_of config ''activation_type'' = Some a"
    and "map_of config ''quant_format'' = Some f"
    and "map_of config ''EnableSubgraph'' = Some (VBool True)"
  shows "validate_search_point config_at_search_point search_point with_fixed_value
           = (Inr False,
              (if w = VStr ''QInt8'' \<and> a = VStr ''QInt8'' \<and> f = VStr ''QOperator''
               then [Warning s8s8_warning] else []) @ [Info subgraph_info])"
  using assms
  by (simp add: validate_search_point_def validate_rules_def is_s8s8_qoperator_def comp_defs)

theorem validate_rejects_static_subgraph_witness:
  "validate_search_point no_fixed_values (Some subgraph_point) False
     = (Inr False, [Info subgraph_info])"
  using validate_rejects_static_subgraph
          [of no_fixed_values "Some subgraph_point" False subgraph_point
              "VStr ''QUInt8''" "VStr ''QUInt8''" "VStr ''QDQ''"]
  by (simp add: point_config_def point_or_empty_def subgraph_point_def)

text \<open>
  C9 as stated fails: a static point whose \<open>weight_type\<close> is not \<open>"QInt8"\<close> may
  lack \<open>activation_type\<close> and \<open>quant_format\<close>, and the validator still returns a
  result, because the conjunction of the advisory rule stops at its first false operand.
\<close>

theorem validate_partial_point_counterexample:
  "map_of partial_point ''quant_mode'' = Some (VStr ''static'')
   \<and> map_of partial_point ''activation_type'' = None
   \<and> map_of partial_point ''quant_format'' = None
   \<and> validate_search_point no_fixed_values (Some partial_point) False = (Inr True, [])"
  by (simp add: validate_search_point_def validate_rules_def is_s8s8_qoperator_def comp_defs
        point_config_def point_or_empty_def partial_point_def)

text \<open>
  C9, amended. With \<open>with_fixed_value = False\<close> the validator raises \<open>KeyError\<close>
  exactly when the point lacks a key that the rules get to read: \<open>quant_mode\<close>; or,
  in static mode, \<open>weight_type\<close>, \<open>activation_type\<close> when \<open>weight_type\<close> is
  \<open>"QInt8"\<close>, \<open>quant_format\<close> when both types are \<open>"QInt8"\<close>, or
  \<open>EnableSubgraph\<close>. In every other case it returns an accept or reject result.
\<close>

theorem validate_key_error_iff:
  "(\<exists>k. fst (validate_search_point config_at_search_point search_point False)
           = Inl (KeyError k))
   \<longleftrightarrow> missing_touched_key (point_or_empty search_point)"
  by (auto simp: validate_search_point_def validate_rules_def is_s8s8_qoperator_def comp_defs
        point_config_def missing_touched_key_def split: option.splits)

theorem validate_key_error_iff_witness:
  "missing_touched_key [(''quant_mode'', VStr ''static''), (''weight_type'', VStr ''QInt8'')]
   \<and> fst (validate_search_point no_fixed_values
             (Some [(''quant_mode'', VStr ''static''), (''weight_type'', VStr ''QInt8'')]) False)
       = Inl (KeyError ''activation_type'')"
  using validate_key_error_iff
          [of no_fixed_values
              "Some [(''quant_mode'', VStr ''static''), (''weight_type'', VStr ''QInt8'')]"]
  by (simp add: validate_search_point_def validate_rules_def is_s8s8_qoperator_def comp_defs
        point_config_def point_or_empty_def missing_touched_key_def)

section \<open>Lemmas about computations and dictionaries\<close>

lemma map_of_dict_update:
  "map_of (dict_update d d2) = map_of d ++ map_of (rev d2)"
  unfolding dict_update_def
proof (induction d2 arbitrary: d)
  case Nil
  show ?case by simp
next
  case (Cons x xs)
  obtain k v where x: "x = (k, v)" by (cases x)
  have "map_of (fold (\<lambda>(k, v). AList.update k v) (x # xs) d)
          = map_of (AList.update k v d) ++ map_of (rev xs)"
    using Cons.IH [of "AList.update k v d"] by (simp add: x)
  also have "\<dots> = map_of d ++ map_of (rev (x # xs))"
    by (simp add: x update_conv' map_add_upd_left fun_eq_iff map_add_def split: option.splits)
  finally show ?case .
qed

lemma dict_update_lookup:
  "map_of (dict_update d d2) k =
     (case map_of (rev d2) k of Some v \<Rightarrow> Some v | None \<Rightarrow> map_of d k)"
  by (simp add: map_of_dict_update map_add_def)

lemma static_table_has:
  fixes ext :: param_table
  defines "config \<equiv> dict_update (dict_update (dict_update (dict_update (dict_update (dict_update
       [(''quant_mode'', PassConfigParam ''str'' (Fixed (VStr ''static'')) None NONE)]
       onnx_quantization_config) static_dataloader_config) static_optional_config)
       exposed_extra_options_config) extra_options_config) ext"
  shows "map_of config ''quant_format'' \<noteq> None"
    and "map_of config ''activation_type'' \<noteq> None"
    and "map_of config ''weight_type'' \<noteq> None"
    and "map_of config ''prepare_qnn_config'' \<noteq> None"
    and "map_of config ''quant_preprocess'' \<noteq> None"
  unfolding config_def
  by (simp_all add: dict_update_lookup onnx_quantization_config_def static_dataloader_config_def
        static_optional_config_def exposed_extra_options_config_def extra_options_config_def
        split: option.splits)

lemma bind_ret [simp]: "bind (ret x) f = f x"
  by (simp add: bind_def ret_def split: prod.splits)

lemma bind_raise [simp]: "bind (raise e) f = raise e"
  by (simp add: bind_def raise_def)

lemma getitem_Some [simp]: "map_of d k = Some v \<Longrightarrow> getitem d k = ret v"
  by (simp add: getitem_def)

lemma getitem_None [simp]: "map_of d k = None \<Longrightarrow> getitem d k = raise (KeyError k)"
  by (simp add: getitem_def)

lemma fst_bind:
  "fst (bind m f) = (case fst m of Inl e \<Rightarrow> Inl e | Inr x \<Rightarrow> fst (f x))"
  by (cases m) (auto simp: bind_def split: sum.splits prod.splits)

lemma snd_bind:
  "snd (bind m f) = (case fst m of Inl e \<Rightarrow> snd m | Inr x \<Rightarrow> snd m @ snd (f x))"
  by (cases m) (auto simp: bind_def split: sum.splits prod.splits)

lemma snd_ret [simp]: "snd (ret x) = []" by (simp add: ret_def)

lemma snd_raise [simp]: "snd (raise e) = []" by (simp add: raise_def)

lemma fst_ret [simp]: "fst (ret x) = Inr x" by (simp add: ret_def)

lemma fst_raise [simp]: "fst (raise e) = Inl e" by (simp add: raise_def)

lemma snd_emit [simp]: "snd (emit ev) = [ev]" by (simp add: emit_def)

lemma fst_emit [simp]: "fst (emit ev) = Inr ()" by (simp add: emit_def)

lemma snd_getitem [simp]: "snd (getitem d k) = []"
  by (simp add: getitem_def split: option.splits)

lemma fst_getitem:
  "fst (getitem d k) = (case map_of d k of None \<Rightarrow> Inl (KeyError k) | Some v \<Rightarrow> Inr v)"
  by (simp add: getitem_def split: option.splits)

lemma move_exposed_trace [simp]: "snd (move_exposed ks eo rc) = []"
  by (induction ks arbitrary: eo rc) (simp_all add: snd_bind split: sum.splits)

lemma move_exposed_result:
  "distinct ks \<Longrightarrow> fst (move_exposed ks eo rc) = Inr (eo', rc') \<Longrightarrow>
     map_of rc' k = (if k \<in> set ks then None else map_of rc k)
     \<and> map_of eo' k = (if k \<in> set ks then map_of rc k else map_of eo k)"
proof (induction ks arbitrary: eo rc)
  case Nil
  then show ?case by simp
next
  case (Cons key keys)
  from Cons.prems(2) obtain v where v: "map_of rc key = Some v"
    and rest: "fst (move_exposed keys (AList.update key v eo) (AList.delete key rc)) = Inr (eo', rc')"
    by (auto simp: fst_bind fst_getitem split: option.splits sum.splits)
  from Cons.prems(1) have "distinct keys" and "key \<notin> set keys" by simp_all
  with Cons.IH [OF \<open>distinct keys\<close> rest] v show ?case
    by (auto simp: update_conv' delete_conv')
qed

lemma in_trace_bind:
  "ev \<in> set (snd (bind m f)) \<longleftrightarrow>
     ev \<in> set (snd m) \<or> (\<exists>x. fst m = Inr x \<and> ev \<in> set (snd (f x)))"
  by (cases "fst m") (auto simp: snd_bind)

lemma check_calibration_source_trace [simp]: "snd (check_calibration_source config) = []"
  by (simp add: check_calibration_source_def snd_bind split: sum.splits)

lemma get_extra_options_trace [simp]: "snd (get_extra_options config) = []"
  by (simp add: get_extra_options_def snd_bind split: sum.splits pyval.splits)

lemma warn_overwritten_calls [simp]: "Call name kw \<notin> set (snd (warn_overwritten env eo))"
  by (simp add: warn_overwritten_def Let_def)

lemma external_unit_calls:
  "Call name kw \<in> set (snd (external_unit n k outcome)) \<longleftrightarrow> name = n \<and> kw = k"
  by (auto simp: external_unit_def snd_bind split: option.splits)

lemma external_value_calls:
  "Call name kw \<in> set (snd (external_value n k outcome)) \<longleftrightarrow> name = n \<and> kw = k"
  by (auto simp: external_value_def snd_bind split: sum.splits)

lemma quant_preprocess_calls:
  "Call name kw \<in> set (snd (quant_preprocess env model)) \<Longrightarrow>
     name = ''quant_pre_process'' \<or> name = ''model_proto_to_file''"
  by (auto simp: quant_preprocess_def in_trace_bind external_unit_calls
        split: option.splits if_splits)

lemma preprocess_model_calls:
  "Call name kw \<in> set (snd (preprocess_model env model rc)) \<Longrightarrow>
     name = ''quant_pre_process'' \<or> name = ''model_proto_to_file''"
  by (auto simp: preprocess_model_def in_trace_bind dest: quant_preprocess_calls
        split: if_splits)

lemma prepare_calls:
  "Call name kw \<in> set (snd (prepare env model config)) \<Longrightarrow>
     name = ''quant_pre_process'' \<or> name = ''model_proto_to_file''"
  unfolding prepare_def
  by (auto simp: in_trace_bind dest: preprocess_model_calls split: if_splits prod.splits)

lemma check_qnn_version_trace [simp]: "snd (check_qnn_version env rc) = []"
  by (simp add: check_qnn_version_def)

lemma enum_lookup_trace [simp]: "snd (enum_lookup env cls v) = []"
  by (simp add: enum_lookup_def split: pyval.splits option.splits)

lemma to_enum_trace [simp]: "snd (to_enum env cls rc k) = []"
  by (simp add: to_enum_def snd_bind split: sum.splits)

lemma boundary_config_trace [simp]: "snd (boundary_config env st) = []"
  by (simp add: boundary_config_def snd_bind Let_def split: sum.splits prod.splits)

lemma map_of_delete_keys:
  "map_of (delete_keys ks d) k = (if k \<in> set ks then None else map_of d k)"
  unfolding delete_keys_def
  by (induction ks arbitrary: d) (auto simp: delete_conv')

lemma boundary_config_dynamic_form:
  assumes "fst (boundary_config env st) = Inr rc" and "\<not> st_is_static st"
  shows "\<exists>wt. rc = strip_config env
                  (to_delete_common env @ map fst static_dataloader_config
                     @ map fst static_optional_config)
                  (dict_update (st_run_config st)
                     [(''weight_type'', wt), (''extra_options'', VDict (st_extra_options st))])"
  using assms
  by (auto simp: boundary_config_def fst_bind split: sum.splits)

lemma map_of_strip_config:
  "map_of (strip_config env ks d) k =
     (if k = ''optimize_model'' \<and> version_less (ort_version env) (release_version [1, 16, 0])
      then Some (VBool False)
      else if k \<in> set ks then None else map_of d k)"
  by (simp add: strip_config_def Let_def map_of_delete_keys update_conv')


lemma quantize_guarded_trace [simp]:
  "snd (quantize_guarded name kwargs outcome) = [Call name kwargs]"
  by (simp add: quantize_guarded_def snd_bind split: option.splits)

lemma fst_quantize_guarded:
  "fst (quantize_guarded name kwargs outcome) =
     (case outcome of
        None \<Rightarrow> Inr ()
      | Some e \<Rightarrow>
          Inl (if isinstance e ''AttributeError'' \<or> isinstance e ''ValueError''
               then OlivePassError (name @ '' failed.'') (Some e)
               else Propagated e))"
  by (simp add: quantize_guarded_def fst_bind split: option.splits)

lemma run_dynamic_call:
  assumes "Call name kwargs \<in> set (snd (run_dynamic env model rc))"
  shows "name = ''quantize_dynamic'' \<and> kwargs = dynamic_explicit env model @ rc
         \<and> fst (run_dynamic env model rc)
             = fst (quantize_guarded ''quantize_dynamic'' kwargs (quantize_dynamic env kwargs))"
  using assms
  by (auto simp: run_dynamic_def call_kwargs_def in_trace_bind fst_bind split: if_splits)

lemma get_dataloader_calls:
  "Call name kw \<in> set (snd (get_dataloader env config)) \<Longrightarrow>
     name = ''dataloader_func'' \<or> name = ''create_calibration_dataloader''"
  by (auto simp: get_dataloader_def in_trace_bind external_value_calls split: if_splits)

lemma bound_trace [simp]: "snd (bound n v) = []"
  by (simp add: bound_def split: option.splits)

lemma qnn_run_config_calls:
  "Call name kw \<in> set (snd (qnn_run_config env config model dl rc)) \<Longrightarrow>
     name = ''get_qnn_qdq_config''"
  by (auto simp: qnn_run_config_def in_trace_bind external_value_calls split: if_splits)

lemma qnn_run_config_off:
  "map_of config ''prepare_qnn_config'' = Some v \<Longrightarrow> \<not> truthy v \<Longrightarrow>
     qnn_run_config env config model dl rc = ret rc"
  by (simp add: qnn_run_config_def)

lemma call_kwargs_trace [simp]: "snd (call_kwargs ex rc) = []"
  by (simp add: call_kwargs_def)

lemma fst_call_kwargs_Inr: "fst (call_kwargs ex rc) = Inr kw \<Longrightarrow> kw = ex @ rc"
  by (simp add: call_kwargs_def split: if_splits)

lemma run_static_call:
  assumes "Call name kwargs \<in> set (snd (run_static env config model rc))"
    and "name = ''quantize_static'' \<or> name = ''quantize_dynamic''"
  shows "name = ''quantize_static''
         \<and> (\<exists>reader rc'.
               fst (qnn_run_config env config model (Some reader) rc) = Inr rc'
               \<and> kwargs = static_explicit env model reader
                            @ delete_keys [''calibration_data_reader'', ''use_external_data_format''] rc')
         \<and> fst (run_static env config model rc)
             = fst (quantize_guarded ''quantize_static'' kwargs (quantize_static env kwargs))"
proof -
  from assms have nd: "Call name kwargs \<notin> set (snd (get_dataloader env config))"
    by (auto dest: get_dataloader_calls)
  from assms have nq: "\<And>dl. Call name kwargs \<notin> set (snd (qnn_run_config env config model dl rc))"
    by (auto dest: qnn_run_config_calls)
  from assms(1) nd nq obtain dl rc' reader kw where
    dl: "fst (get_dataloader env config) = Inr dl"
    and rc': "fst (qnn_run_config env config model dl rc) = Inr rc'"
    and reader: "fst (bound ''dataloader'' dl) = Inr reader"
    and kw: "fst (call_kwargs (static_explicit env model reader)
               (delete_keys [''calibration_data_reader'', ''use_external_data_format''] rc')) = Inr kw"
    and call: "Call name kwargs \<in> set (snd (quantize_guarded ''quantize_static'' kw (quantize_static env kw)))"
    unfolding run_static_def
    by (auto simp: in_trace_bind)
  from call have eq: "name = ''quantize_static''" "kwargs = kw" by simp_all
  from reader have dl': "dl = Some reader" by (cases dl) (simp_all add: bound_def)
  have res: "fst (run_static env config model rc)
               = fst (quantize_guarded ''quantize_static'' kw (quantize_static env kw))"
    using dl rc' reader kw unfolding run_static_def
    by (simp add: fst_bind)
  show ?thesis
    using eq dl' rc' fst_call_kwargs_Inr [OF kw] res by auto
qed

lemma run_for_config_quantize_call:
  assumes "Call name kwargs \<in> set (snd (run_for_config env model config))"
    and "name = ''quantize_static'' \<or> name = ''quantize_dynamic''"
  shows "\<exists>st rc. fst (prepare env model config) = Inr st
           \<and> fst (boundary_config env st) = Inr rc
           \<and> Call name kwargs \<in> set (snd (if st_is_static st
                  then run_static env config (st_model st) rc
                  else run_dynamic env (st_model st) rc))
           \<and> (\<forall>e. fst (if st_is_static st
                  then run_static env config (st_model st) rc
                  else run_dynamic env (st_model st) rc) = Inl e
                \<longrightarrow> fst (run_for_config env model config) = Inl e)"
proof -
  from assms have np: "Call name kwargs \<notin> set (snd (prepare env model config))"
    by (auto dest: prepare_calls)
  from assms have nf: "Call name kwargs \<notin>
      set (snd (external_value ''model_proto_to_olive_model'' config (save_output_model env)))"
    by (auto simp: external_value_calls)
  from assms(1) np nf obtain st u rc where
    st: "fst (prepare env model config) = Inr st"
    and u: "fst (check_qnn_version env (st_run_config st)) = Inr u"
    and rc: "fst (boundary_config env st) = Inr rc"
    and call: "Call name kwargs \<in> set (snd (if st_is_static st
                  then run_static env config (st_model st) rc
                  else run_dynamic env (st_model st) rc))"
    unfolding run_for_config_def
    by (auto simp: in_trace_bind)
  have "\<forall>e. fst (if st_is_static st
                  then run_static env config (st_model st) rc
                  else run_dynamic env (st_model st) rc) = Inl e
                \<longrightarrow> fst (run_for_config env model config) = Inl e"
    using st u rc unfolding run_for_config_def by (simp add: fst_bind)
  with st rc call show ?thesis by blast
qed


lemma distinct_exposed_keys: "distinct exposed_keys"
  by (simp add: exposed_keys_def exposed_extra_options_config_def)


lemma prepare_form:
  assumes "fst (prepare env model config) = Inr st"
  shows "\<exists>eo. fst (get_extra_options config) = Inr eo
           \<and> fst (move_exposed exposed_keys eo config) = Inr (st_extra_options st, st_run_config st)
           \<and> st_is_static st = (map_of config ''quant_mode'' = Some (VStr ''static''))
           \<and> snd (prepare env model config)
               = snd (warn_overwritten env eo) @ snd (preprocess_model env model (st_run_config st))"
proof -
  from assms obtain qm where qm: "map_of config ''quant_mode'' = Some qm"
    by (cases "map_of config ''quant_mode''") (simp_all add: prepare_def)
  let ?chk = "if qm = VStr ''static'' then check_calibration_source config else ret ()"
  from assms qm obtain u where u: "fst ?chk = Inr u"
    by (cases "fst ?chk") (simp_all add: prepare_def fst_bind)
  have chk_t: "snd ?chk = []" by simp
  from assms qm u obtain eo where eo: "fst (get_extra_options config) = Inr eo"
    by (cases "fst (get_extra_options config)") (simp_all add: prepare_def fst_bind)
  from assms qm u eo obtain w where w: "fst (warn_overwritten env eo) = Inr w"
    by (cases "fst (warn_overwritten env eo)") (simp_all add: prepare_def fst_bind)
  from assms qm u eo w obtain eo' rc' where mv: "fst (move_exposed exposed_keys eo config) = Inr (eo', rc')"
    by (cases "fst (move_exposed exposed_keys eo config)") (auto simp: prepare_def fst_bind)
  from assms qm u eo w mv obtain m' where pm: "fst (preprocess_model env model rc') = Inr m'"
    by (cases "fst (preprocess_model env model rc')") (simp_all add: prepare_def fst_bind)
  from assms qm u eo w mv pm have st: "st = \<lparr>st_is_static = (qm = VStr ''static''), st_extra_options = eo',
          st_run_config = rc', st_model = m'\<rparr>"
    by (simp add: prepare_def fst_bind)
  have "snd (prepare env model config)
          = snd (warn_overwritten env eo) @ snd (preprocess_model env model rc')"
    using qm u eo w mv pm chk_t by (simp add: prepare_def snd_bind)
  with eo mv st qm show ?thesis by auto
qed

lemma preprocess_model_pre_process_call:
  "(\<exists>kw. Call ''quant_pre_process'' kw \<in> set (snd (preprocess_model env model rc)))
     \<longleftrightarrow> (\<exists>qp. map_of rc ''quant_preprocess'' = Some qp \<and> truthy qp) \<and> \<not> preprocessed_exists env"
  by (cases "map_of rc ''quant_preprocess''")
     (auto simp: preprocess_model_def quant_preprocess_def in_trace_bind snd_bind)

lemma run_trace_prefix:
  "fst (prepare env model config) = Inr st \<Longrightarrow>
     set (snd (prepare env model config)) \<subseteq> set (snd (run_for_config env model config))"
  by (simp add: run_for_config_def snd_bind)



lemma quantizer_kwargs:
  assumes "Call name kwargs \<in> set (snd (run_for_config env model config))"
    and "is_quantizer name"
    and "\<not> takes_qnn_path config"
  shows "\<exists>st rc explicit. fst (prepare env model config) = Inr st
           \<and> fst (boundary_config env st) = Inr rc
           \<and> kwargs = explicit @ (if st_is_static st
                 then delete_keys [''calibration_data_reader'', ''use_external_data_format''] rc
                 else rc)
           \<and> name = (if st_is_static st then ''quantize_static'' else ''quantize_dynamic'')
           \<and> set (map fst explicit) \<subseteq> {''model_input'', ''model_output'',
                 ''calibration_data_reader'', ''use_external_data_format''}"
proof -
  from assms(2) have q: "name = ''quantize_static'' \<or> name = ''quantize_dynamic''"
    by (simp add: is_quantizer_def)
  from run_for_config_quantize_call [OF assms(1) q] obtain st :: run_state and rc where
    st: "fst (prepare env model config) = Inr st"
    and rc: "fst (boundary_config env st) = Inr rc"
    and call: "Call name kwargs \<in> set (snd (if st_is_static st
              then run_static env config (st_model st) rc
              else run_dynamic env (st_model st) rc))"
    by blast
  from prepare_form [OF st]
  have mode: "st_is_static st = (map_of config ''quant_mode'' = Some (VStr ''static''))"
    by blast
  show ?thesis
  proof (cases "st_is_static st")
    case True
    with call have c: "Call name kwargs \<in> set (snd (run_static env config (st_model st) rc))"
      by simp
    from run_static_call [OF c q] obtain reader rc' where n: "name = ''quantize_static''"
      and rc': "fst (qnn_run_config env config (st_model st) (Some reader) rc) = Inr rc'"
      and kw: "kwargs = static_explicit env (st_model st) reader
                 @ delete_keys [''calibration_data_reader'', ''use_external_data_format''] rc'"
      by blast
    have "rc' = rc"
    proof (cases "map_of config ''prepare_qnn_config''")
      case None
      with rc' show ?thesis by (simp add: qnn_run_config_def)
    next
      case (Some v)
      with assms(3) True mode have "\<not> truthy v" by (simp add: takes_qnn_path_def)
      with Some rc' show ?thesis by (simp add: qnn_run_config_off)
    qed
    with st rc kw n True show ?thesis
      by (intro exI [of _ st] exI [of _ rc]
            exI [of _ "static_explicit env (st_model st) reader"])
         (simp add: static_explicit_def)
  next
    case False
    with call have c: "Call name kwargs \<in> set (snd (run_dynamic env (st_model st) rc))"
      by simp
    from run_dynamic_call [OF c] have "name = ''quantize_dynamic''"
      and "kwargs = dynamic_explicit env (st_model st) @ rc"
      by blast+
    with st rc False show ?thesis
      by (intro exI [of _ st] exI [of _ rc] exI [of _ "dynamic_explicit env (st_model st)"])
         (simp add: dynamic_explicit_def)
  qed
qed

lemma map_of_append_right:
  "k \<notin> fst ` set xs \<Longrightarrow> map_of (xs @ ys) k = map_of ys k"
  by (induction xs) auto


lemma resolve_params_keeps:
  "resolve_params omitted table xs point = Inr point' \<Longrightarrow>
     (map_of point k = Some v \<longrightarrow> map_of point' k = Some v)
     \<and> (k \<notin> fst ` set xs \<longrightarrow> map_of point' k = map_of point k)"
proof (induction xs arbitrary: point)
  case Nil
  then show ?case by simp
next
  case (Cons x xs)
  obtain name spec where x: "x = (name, spec)" by (cases x)
  show ?case
  proof (cases "map_of point name")
    case (Some w)
    with Cons.prems x have "resolve_params omitted table xs point = Inr point'"
      by (simp split: if_splits)
    from Cons.IH [OF this] Some x show ?thesis by auto
  next
    case None
    with Cons.prems x obtain w where
      "resolve_params omitted table xs (AList.update name w point) = Inr point'"
      by (auto split: sum.splits)
    from Cons.IH [OF this]
    have ih1: "map_of (AList.update name w point) k = Some v \<longrightarrow> map_of point' k = Some v"
      and ih2: "k \<notin> fst ` set xs \<longrightarrow> map_of point' k = map_of (AList.update name w point) k"
      by blast+
    show ?thesis
    proof (cases "k = name")
      case True
      with None x show ?thesis by simp
    next
      case False
      with ih1 ih2 x show ?thesis by (simp add: update_conv')
    qed
  qed
qed




lemma static_optional_entry:
  assumes "(k, p) \<in> set static_optional_config" and "k \<notin> fst ` set ext"
  shows "map_of (OnnxQuantization_default_config ext acc) k = Some (ignore_unless_static p)"
proof -
  from assms(2) have "map_of (rev ext) k = None"
    by (simp add: map_of_eq_None_iff)
  with assms(1) show ?thesis
    by (auto simp: OnnxQuantization_default_config_def Let_def dict_update_lookup
          static_optional_config_def exposed_extra_options_config_def extra_options_config_def)
qed

lemma distinct_dict_update:
  "distinct (map fst d) \<Longrightarrow> distinct (map fst (dict_update d d2))"
  unfolding dict_update_def
  by (induction d2 arbitrary: d) (auto simp: distinct_update)

lemma distinct_OnnxQuantization_default_config:
  "distinct (map fst (OnnxQuantization_default_config ext acc))"
  by (simp add: OnnxQuantization_default_config_def Let_def distinct_dict_update)

lemma ignored_when_dynamic:
  "map_of point ''quant_mode'' = Some (VStr ''dynamic'') \<Longrightarrow>
     resolve_default omitted table visiting point (default_value (ignore_unless_static p))
       = Inr IGNORED"
  by (simp add: ignore_unless_static_def get_ignored_choice_def)

lemma resolve_open_ignored:
  assumes "map_of point ''quant_mode'' = Some (VStr ''dynamic'')"
    and "resolve_open omitted table point name (ignore_unless_static p) = Inr w"
  shows "w = IGNORED"
proof -
  have d: "resolve_from_default omitted table point name (ignore_unless_static p) = Inr IGNORED"
    using ignored_when_dynamic [OF assms(1)] by (simp add: resolve_from_default_def)
  from assms(2) show ?thesis
    unfolding resolve_open_def d
    by (auto split: option.splits sum.splits allowed.splits)
qed

lemma resolve_params_ignores:
  assumes "\<forall>spec. (k, spec) \<in> set xs \<longrightarrow> (\<exists>p. spec = ignore_unless_static p)"
    and "map_of point ''quant_mode'' = Some (VStr ''dynamic'')"
    and "map_of point k = None \<or> map_of point k = Some IGNORED"
    and "resolve_params omitted table xs point = Inr point'"
  shows "map_of point' k = None \<or> map_of point' k = Some IGNORED"
  using assms
proof (induction xs arbitrary: point)
  case Nil
  then show ?case by simp
next
  case (Cons x xs)
  obtain name spec where x: "x = (name, spec)" by (cases x)
  from Cons.prems(1) have tail: "\<forall>spec. (k, spec) \<in> set xs \<longrightarrow> (\<exists>p. spec = ignore_unless_static p)"
    by simp
  show ?case
  proof (cases "map_of point name")
    case (Some w)
    with Cons.prems(4) x have "resolve_params omitted table xs point = Inr point'"
      by (simp split: if_splits)
    from Cons.IH [OF tail Cons.prems(2,3) this] show ?thesis .
  next
    case None
    with Cons.prems(4) x obtain w where
      w: "resolve_open omitted table point name spec = Inr w"
      and rest: "resolve_params omitted table xs (AList.update name w point) = Inr point'"
      by (auto split: sum.splits)
    from None Cons.prems(2) have "name \<noteq> ''quant_mode''" by auto
    with Cons.prems(2) have qm: "map_of (AList.update name w point) ''quant_mode''
                                   = Some (VStr ''dynamic'')"
      by (simp add: update_conv')
    have "map_of (AList.update name w point) k = None
            \<or> map_of (AList.update name w point) k = Some IGNORED"
    proof (cases "name = k")
      case True
      with Cons.prems(1) x obtain p where "spec = ignore_unless_static p" by auto
      with w resolve_open_ignored [OF Cons.prems(2)] have "w = IGNORED" by blast
      with True show ?thesis by (simp add: update_conv')
    next
      case False
      with Cons.prems(3) show ?thesis by (simp add: update_conv')
    qed
    from Cons.IH [OF tail qm this rest] show ?thesis .
  qed
qed

lemma ignored_removed:
  "map_of (delete_keys (ignored_keys point) point) k =
     (if map_of point k = Some IGNORED then None else map_of point k)"
proof (cases "map_of point k = Some IGNORED")
  case True
  then have "k \<in> fst ` set point" by (auto dest: map_of_SomeD intro: rev_image_eqI)
  with True show ?thesis by (simp add: map_of_delete_keys ignored_keys_def)
next
  case False
  then show ?thesis by (simp add: map_of_delete_keys ignored_keys_def)
qed

lemma static_only_keys_deleted:
  assumes "k \<in> set static_only_keys"
  shows "k \<in> set (to_delete_common env @ map fst static_dataloader_config
                    @ map fst static_optional_config)"
    and "k \<noteq> ''optimize_model''"
    and "k \<notin> {''model_input'', ''model_output'', ''calibration_data_reader'',
               ''use_external_data_format''}"
  using assms
  by (auto simp: static_only_keys_def static_dataloader_config_def static_optional_config_def)









section \<open>Properties of the parameter tables\<close>

text \<open>
  C10. For an accelerator whose execution provider is \<open>QNNExecutionProvider\<close>, the
  dynamic pass raises \<open>ValueError\<close> and builds no table, whereas the static pass
  returns its table specialised: \<open>quant_format\<close> can only be \<open>"QDQ"\<close>, the
  activation and weight types include the 16-bit types, \<open>prepare_qnn_config\<close>
  defaults to \<open>True\<close> and \<open>quant_preprocess\<close> to \<open>False\<close>. This holds whatever the
  external-data table is.
\<close>

theorem qnn_provider_default_configs:
  assumes "execution_provider accelerator_spec = ''QNNExecutionProvider''"
  shows "OnnxDynamicQuantization_default_config ext accelerator_spec
           = Inl (ValueError ''QNNExecutionProvider is not supported for dynamic quantization.'')
         \<and> (\<exists>config. OnnxStaticQuantization_default_config ext accelerator_spec = Inr config
              \<and> map_option searchable_values (map_of config ''quant_format'')
                    = Some (Some (Categorical [VStr ''QDQ'']))
              \<and> map_option searchable_values (map_of config ''activation_type'')
                    = Some (Some sixteen_bit_types)
              \<and> map_option searchable_values (map_of config ''weight_type'')
                    = Some (Some sixteen_bit_types)
              \<and> map_option default_value (map_of config ''prepare_qnn_config'')
                    = Some (Fixed (VBool True))
              \<and> map_option default_value (map_of config ''quant_preprocess'')
                    = Some (Fixed (VBool False)))"
proof -
  define config where "config = dict_update (dict_update (dict_update (dict_update (dict_update (dict_update
       [(''quant_mode'', PassConfigParam ''str'' (Fixed (VStr ''static'')) None NONE)]
       onnx_quantization_config) static_dataloader_config) static_optional_config)
       exposed_extra_options_config) extra_options_config) ext"
  obtain p1 p2 p3 p4 p5 where
    "map_of config ''quant_format'' = Some p1" "map_of config ''activation_type'' = Some p2"
    "map_of config ''weight_type'' = Some p3" "map_of config ''prepare_qnn_config'' = Some p4"
    "map_of config ''quant_preprocess'' = Some p5"
    using static_table_has [of ext] unfolding config_def by auto
  then show ?thesis
    using assms
    by (simp add: OnnxDynamicQuantization_default_config_def
          OnnxStaticQuantization_default_config_def Let_def config_def [symmetric]
          and_then_def set_searchable_values_def set_default_value_def update_conv')
qed

theorem qnn_provider_default_configs_witness:
  "OnnxDynamicQuantization_default_config []
       \<lparr>execution_provider = ''QNNExecutionProvider''\<rparr>
     = Inl (ValueError ''QNNExecutionProvider is not supported for dynamic quantization.'')
   \<and> (\<exists>config. OnnxStaticQuantization_default_config []
                  \<lparr>execution_provider = ''QNNExecutionProvider''\<rparr> = Inr config
         \<and> map_option searchable_values (map_of config ''quant_format'')
               = Some (Some (Categorical [VStr ''QDQ'']))
         \<and> map_option default_value (map_of config ''prepare_qnn_config'')
               = Some (Fixed (VBool True)))"
  using qnn_provider_default_configs
          [of "\<lparr>execution_provider = ''QNNExecutionProvider''\<rparr>" "[]"]
  by auto

section \<open>Properties of the run\<close>

text \<open>
  C6. In static mode, when the configuration gives neither a \<open>dataloader_func\<close> nor
  a \<open>data_config\<close> (both are false values), the run raises the assertion error of
  line 332 with an empty trace: nothing was logged and no call had left the function,
  neither the preprocessing nor the quantizer. When at least one of the two is given,
  the check passes.
\<close>

theorem static_without_calibration_source_fails:
  assumes "map_of config ''quant_mode'' = Some (VStr ''static'')"
    and "map_of config ''dataloader_func'' = Some dataloader_func"
    and "map_of config ''data_config'' = Some data_config"
  shows "if truthy dataloader_func \<or> truthy data_config
         then check_calibration_source config = (Inr (), [])
         else run_for_config env model config
                = (Inl (AssertionError calibration_assert_message), [])"
  using assms
  by (auto simp: run_for_config_def prepare_def check_calibration_source_def)
     (simp_all add: ret_def raise_def)

theorem static_without_calibration_source_fails_witness:
  "run_for_config sample_env ''model.onnx'' uncalibrated_config
     = (Inl (AssertionError calibration_assert_message), [])
   \<and> check_calibration_source (static_config False False) = (Inr (), [])"
  using static_without_calibration_source_fails
          [of uncalibrated_config VNone VNone sample_env "''model.onnx''"]
        static_without_calibration_source_fails
          [of "static_config False False" "VObj ''create_dataloader''" VNone]
  by (simp add: uncalibrated_config_def static_config_def common_values_def)

text \<open>
  C7 as stated fails: with \<open>quant_preprocess\<close> set and no preprocessed model in the
  cache, the external preprocessing \<open>quant_pre_process\<close> has already been called when
  the version check of line 369 raises.
\<close>

theorem qnn_version_check_counterexample:
  "run_for_config (sample_env\<lparr>ort_version := release_version [1, 16, 0]\<rparr>) ''model.onnx''
       (static_config True True)
     = (Inl (OlivePassError qnn_version_message None),
        [WarningKeys overwrite_warning [''ActivationSymmetric'', ''WeightSymmetric''],
         Info ''Preprocessing model for quantization'',
         Call ''quant_pre_process''
           [(''input_model_path'', VStr ''model.onnx''),
            (''output_model_path'', VStr ''preprocessed.onnx''),
            (''auto_merge'', VBool True), (''save_as_external_data'', VBool True),
            (''verbose'', VInt 3)]])"
  by code_simp

text \<open>
  C7, amended. When the configuration asks for \<open>prepare_qnn_config\<close>, the version of
  onnxruntime is lower than 1.17.0 in the order of \<open>packaging\<close> (a development or
  pre-release build of 1.17.0 is) and the steps before the check (lines 329--366) raise
  nothing, the
  run fails with \<open>OlivePassError\<close>, and its trace is the trace of those steps: the
  dataloader, \<open>get_qnn_qdq_config\<close> and the quantizer are never called. The only
  calls that can precede the error are those of the optional preprocessing, and
  \<open>quant_pre_process\<close> is called exactly when \<open>quant_preprocess\<close> is true and no
  preprocessed model is in the cache.
\<close>

theorem qnn_version_check_follows_preprocessing:
  assumes "map_of config ''prepare_qnn_config'' = Some v" and "truthy v"
    and "version_less (ort_version env) (release_version [1, 17, 0])"
    and "fst (prepare env model config) = Inr st"
  shows "fst (run_for_config env model config) = Inl (OlivePassError qnn_version_message None)
         \<and> snd (run_for_config env model config) = snd (prepare env model config)
         \<and> (\<forall>name kw. Call name kw \<in> set (snd (run_for_config env model config))
               \<longrightarrow> name = ''quant_pre_process'' \<or> name = ''model_proto_to_file'')
         \<and> ((\<exists>kw. Call ''quant_pre_process'' kw \<in> set (snd (run_for_config env model config)))
               \<longleftrightarrow> (\<exists>qp. map_of config ''quant_preprocess'' = Some qp \<and> truthy qp)
                    \<and> \<not> preprocessed_exists env)"
proof -
  from prepare_form [OF assms(4)] obtain eo where
    mv: "fst (move_exposed exposed_keys eo config) = Inr (st_extra_options st, st_run_config st)"
    and tr: "snd (prepare env model config)
               = snd (warn_overwritten env eo) @ snd (preprocess_model env model (st_run_config st))"
    by blast
  have keep: "map_of (st_run_config st) k = map_of config k" if "k \<notin> set exposed_keys" for k
    using move_exposed_result [OF distinct_exposed_keys mv, of k] that by simp
  have "map_of (st_run_config st) ''prepare_qnn_config'' = Some v"
    using keep [of "''prepare_qnn_config''"] assms(1)
    by (simp add: exposed_keys_def exposed_extra_options_config_def)
  with assms(2,3) have chk: "check_qnn_version env (st_run_config st)
                               = raise (OlivePassError qnn_version_message None)"
    by (simp add: check_qnn_version_def dict_get_def)
  have res: "fst (run_for_config env model config) = Inl (OlivePassError qnn_version_message None)"
    and trace: "snd (run_for_config env model config) = snd (prepare env model config)"
    using assms(4) chk by (simp_all add: run_for_config_def fst_bind snd_bind)
  have calls: "\<forall>name kw. Call name kw \<in> set (snd (run_for_config env model config))
               \<longrightarrow> name = ''quant_pre_process'' \<or> name = ''model_proto_to_file''"
    unfolding trace by (auto dest: prepare_calls)
  have qp: "map_of (st_run_config st) ''quant_preprocess'' = map_of config ''quant_preprocess''"
    using keep [of "''quant_preprocess''"]
    by (simp add: exposed_keys_def exposed_extra_options_config_def)
  have "(\<exists>kw. Call ''quant_pre_process'' kw \<in> set (snd (run_for_config env model config)))
          \<longleftrightarrow> (\<exists>kw. Call ''quant_pre_process'' kw
                      \<in> set (snd (preprocess_model env model (st_run_config st))))"
    unfolding trace tr by auto
  also have "\<dots> \<longleftrightarrow> (\<exists>qp. map_of config ''quant_preprocess'' = Some qp \<and> truthy qp)
                    \<and> \<not> preprocessed_exists env"
    by (simp add: preprocess_model_pre_process_call qp)
  finally show ?thesis using res trace calls by blast
qed

theorem qnn_version_check_follows_preprocessing_witness:
  "fst (run_for_config (sample_env\<lparr>ort_version := ort_1_17_0_rc1\<rparr>) ''model.onnx''
          (static_config True False))
     = Inl (OlivePassError qnn_version_message None)
   \<and> snd (run_for_config (sample_env\<lparr>ort_version := ort_1_17_0_rc1\<rparr>) ''model.onnx''
          (static_config True False))
     = [WarningKeys overwrite_warning [''ActivationSymmetric'', ''WeightSymmetric'']]"
proof -
  let ?env = "sample_env\<lparr>ort_version := ort_1_17_0_rc1\<rparr>"
  let ?config = "static_config True False"
  have h1: "map_of ?config ''prepare_qnn_config'' = Some (VBool True)" by code_simp
  have h2: "truthy (VBool True)" by simp
  have h3: "version_less (ort_version ?env) (release_version [1, 17, 0])" by code_simp
  have h4: "fst (prepare ?env ''model.onnx'' ?config) =
              Inr (case fst (prepare ?env ''model.onnx'' ?config) of Inr st \<Rightarrow> st)"
    by code_simp
  have t: "snd (prepare ?env ''model.onnx'' ?config)
             = [WarningKeys overwrite_warning [''ActivationSymmetric'', ''WeightSymmetric'']]"
    by code_simp
  from qnn_version_check_follows_preprocessing [OF h1 h2 h3 h4] t show ?thesis by simp
qed

text \<open>
  C8. When the quantizer call of a run (\<open>quantize_static\<close> or \<open>quantize_dynamic\<close>)
  raises, the run raises: \<open>OlivePassError\<close> with the message of that branch and the
  exception as its cause when the exception is an \<open>AttributeError\<close> or a
  \<open>ValueError\<close> (an instance of the class or of a subclass, as \<open>except\<close> matches),
  and the exception itself, unchanged, in every other case.
\<close>

theorem quantizer_exceptions_in_run:
  assumes "Call name kwargs \<in> set (snd (run_for_config env model config))"
    and "(name = ''quantize_static'' \<and> quantize_static env kwargs = Some e)
         \<or> (name = ''quantize_dynamic'' \<and> quantize_dynamic env kwargs = Some e)"
  shows "fst (run_for_config env model config) =
           Inl (if isinstance e ''AttributeError'' \<or> isinstance e ''ValueError''
                then OlivePassError (name @ '' failed.'') (Some e)
                else Propagated e)"
proof -
  from assms(2) have q: "name = ''quantize_static'' \<or> name = ''quantize_dynamic''" by blast
  from run_for_config_quantize_call [OF assms(1) q] obtain st :: run_state and rc where
    call: "Call name kwargs \<in> set (snd (if st_is_static st
              then run_static env config (st_model st) rc
              else run_dynamic env (st_model st) rc))"
    and err0: "\<forall>e. fst (if st_is_static st
              then run_static env config (st_model st) rc
              else run_dynamic env (st_model st) rc) = Inl e
            \<longrightarrow> fst (run_for_config env model config) = Inl e"
    by blast
  from err0 have err: "\<And>x. fst (if st_is_static st
              then run_static env config (st_model st) rc
              else run_dynamic env (st_model st) rc) = Inl x
            \<Longrightarrow> fst (run_for_config env model config) = Inl x"
    by blast
  show ?thesis
  proof (cases "st_is_static st")
    case True
    with call have c: "Call name kwargs \<in> set (snd (run_static env config (st_model st) rc))"
      by simp
    from run_static_call [OF c q] have n: "name = ''quantize_static''"
      and r: "fst (run_static env config (st_model st) rc)
                = fst (quantize_guarded ''quantize_static'' kwargs (quantize_static env kwargs))"
      by blast+
    from n assms(2) have "quantize_static env kwargs = Some e" by simp
    with r n True show ?thesis by (intro err) (simp add: fst_quantize_guarded)
  next
    case False
    with call have c: "Call name kwargs \<in> set (snd (run_dynamic env (st_model st) rc))"
      by simp
    from run_dynamic_call [OF c] have n: "name = ''quantize_dynamic''"
      and r: "fst (run_dynamic env (st_model st) rc)
                = fst (quantize_guarded ''quantize_dynamic'' kwargs (quantize_dynamic env kwargs))"
      by blast+
    from n assms(2) have "quantize_dynamic env kwargs = Some e" by simp
    with r n False show ?thesis by (intro err) (simp add: fst_quantize_guarded)
  qed
qed

theorem quantizer_exceptions_in_run_witness:
  "fst (run_for_config (sample_env\<lparr>quantize_dynamic := (\<lambda>kwargs. Some value_error)\<rparr>)
          ''model.onnx'' dynamic_config)
     = Inl (OlivePassError ''quantize_dynamic failed.'' (Some value_error))"
proof -
  let ?env = "sample_env\<lparr>quantize_dynamic := (\<lambda>kwargs. Some value_error)\<rparr>"
  let ?kwargs = "dynamic_explicit ?env ''model.onnx'' @
     [(''weight_type'', VObj ''QuantType.QInt8''),
      (''op_types_to_quantize'', VNone), (''nodes_to_quantize'', VNone),
      (''nodes_to_exclude'', VNone), (''per_channel'', VBool False),
      (''reduce_range'', VBool False),
      (''extra_options'',
         VDict
          [(''WeightSymmetric'', VBool True), (''ActivationSymmetric'', VBool False),
           (''CalibMovingAverage'', VBool True), (''extra.Sigmoid.nnapi'', VBool False),
           (''EnableSubgraph'', VBool False), (''ForceQuantizeNoInputCheck'', VBool False),
           (''MatMulConstBOnly'', VBool True)])]"
  have h1: "Call ''quantize_dynamic'' ?kwargs
              \<in> set (snd (run_for_config ?env ''model.onnx'' dynamic_config))"
    by code_simp
  have h2: "(''quantize_dynamic'' = ''quantize_static'' \<and> quantize_static ?env ?kwargs = Some value_error)
         \<or> (''quantize_dynamic'' = ''quantize_dynamic'' \<and> quantize_dynamic ?env ?kwargs = Some value_error)"
    by simp
  from quantizer_exceptions_in_run [OF h1 h2] show ?thesis
    by (simp add: isinstance_def value_error_def)
qed




section \<open>Properties of the resolution\<close>



text \<open>
  C2. Take a search point with \<open>quant_mode = "dynamic"\<close> and a static optional
  parameter \<open>k\<close> (its name is supposed not to be redeclared by the external-data
  table). In the table of \<open>OnnxQuantization\<close> the parameter is the wrapped one; its
  default resolves to \<open>IGNORED\<close>; the resolution of the point keeps the mode and gives
  an effective configuration without \<open>k\<close> when the point did not set it to a value; no
  effective configuration holds an \<open>IGNORED\<close> entry; and a run in dynamic mode only
  ever calls \<open>quantize_dynamic\<close>, with keyword arguments that hold none of the
  static-only keys.
\<close>

theorem static_only_parameters_absent_in_dynamic_mode:
  assumes "map_of point ''quant_mode'' = Some (VStr ''dynamic'')"
    and "(k, p) \<in> set static_optional_config"
    and "k \<notin> fst ` set external_data_config"
  shows "map_of (OnnxQuantization_default_config external_data_config accelerator_spec) k
           = Some (ignore_unless_static p)
         \<and> resolve_default omitted table visiting point (default_value (ignore_unless_static p))
             = Inr IGNORED
         \<and> (\<forall>config.
               resolve omitted
                 (OnnxQuantization_default_config external_data_config accelerator_spec) point
                 = Inr config
               \<longrightarrow> map_of config ''quant_mode'' = Some (VStr ''dynamic'')
                   \<and> (map_of point k = None \<or> map_of point k = Some IGNORED
                        \<longrightarrow> map_of config k = None))
         \<and> (\<forall>any_table config k'.
               resolve omitted any_table point = Inr config \<longrightarrow> map_of config k' \<noteq> Some IGNORED)
         \<and> (\<forall>config name kwargs.
               map_of config ''quant_mode'' = Some (VStr ''dynamic'')
               \<and> Call name kwargs \<in> set (snd (run_for_config env model config))
               \<and> is_quantizer name
               \<longrightarrow> name = ''quantize_dynamic''
                   \<and> (\<forall>k' \<in> set static_only_keys. map_of kwargs k' = None))"
proof -
  let ?table = "OnnxQuantization_default_config external_data_config accelerator_spec"
  have entry: "map_of ?table k = Some (ignore_unless_static p)"
    using assms(2,3) by (rule static_optional_entry)
  have ignored: "resolve_default omitted table visiting point
                   (default_value (ignore_unless_static p)) = Inr IGNORED"
    using assms(1) by (rule ignored_when_dynamic)
  have wrapped: "\<forall>spec. (k, spec) \<in> set ?table \<longrightarrow> (\<exists>p. spec = ignore_unless_static p)"
  proof (intro allI impI)
    fix spec
    assume "(k, spec) \<in> set ?table"
    with distinct_OnnxQuantization_default_config [of external_data_config accelerator_spec]
    have "map_of ?table k = Some spec" by (simp add: map_of_eq_Some_iff)
    with entry show "\<exists>p. spec = ignore_unless_static p" by auto
  qed
  have resolved: "map_of config ''quant_mode'' = Some (VStr ''dynamic'')
                   \<and> (map_of point k = None \<or> map_of point k = Some IGNORED
                        \<longrightarrow> map_of config k = None)"
    if r: "resolve omitted ?table point = Inr config" for config
  proof -
    from r obtain point' where
      ps: "resolve_params omitted ?table ?table point = Inr point'"
      and config: "config = delete_keys (ignored_keys point') point'"
      by (auto simp: resolve_def split: sum.splits)
    from resolve_params_keeps [OF ps] assms(1)
    have "map_of point' ''quant_mode'' = Some (VStr ''dynamic'')" by blast
    then have mode: "map_of config ''quant_mode'' = Some (VStr ''dynamic'')"
      unfolding config by (simp add: ignored_removed)
    have "map_of config k = None" if "map_of point k = None \<or> map_of point k = Some IGNORED"
      using resolve_params_ignores [OF wrapped assms(1) that ps]
      unfolding config by (auto simp: ignored_removed)
    with mode show ?thesis by blast
  qed
  have removed: "map_of config k' \<noteq> Some IGNORED"
    if "resolve omitted any_table point = Inr config" for any_table config k'
    using that by (auto simp: resolve_def ignored_removed split: sum.splits if_splits)
  have pruned: "name = ''quantize_dynamic'' \<and> (\<forall>k' \<in> set static_only_keys. map_of kwargs k' = None)"
    if mode: "map_of config ''quant_mode'' = Some (VStr ''dynamic'')"
      and call: "Call name kwargs \<in> set (snd (run_for_config env model config))"
      and q: "is_quantizer name" for config name kwargs
  proof -
    from mode have nq: "\<not> takes_qnn_path config" by (simp add: takes_qnn_path_def)
    from quantizer_kwargs [OF call q nq] obtain st :: run_state and rc explicit where
      st: "fst (prepare env model config) = Inr st"
      and rc: "fst (boundary_config env st) = Inr rc"
      and kw: "kwargs = explicit @ (if st_is_static st
                 then delete_keys [''calibration_data_reader'', ''use_external_data_format''] rc
                 else rc)"
      and n: "name = (if st_is_static st then ''quantize_static'' else ''quantize_dynamic'')"
      and ex: "set (map fst explicit) \<subseteq> {''model_input'', ''model_output'',
                 ''calibration_data_reader'', ''use_external_data_format''}"
      by blast
    from prepare_form [OF st] mode have dyn: "\<not> st_is_static st" by auto
    from boundary_config_dynamic_form [OF rc dyn] obtain wt where
      form: "rc = strip_config env
                    (to_delete_common env @ map fst static_dataloader_config
                       @ map fst static_optional_config)
                    (dict_update (st_run_config st)
                       [(''weight_type'', wt), (''extra_options'', VDict (st_extra_options st))])"
      by blast
    have "map_of kwargs k' = None" if "k' \<in> set static_only_keys" for k'
    proof -
      have del: "k' \<in> set (to_delete_common env @ map fst static_dataloader_config
                              @ map fst static_optional_config)"
        by (rule static_only_keys_deleted(1) [OF that])
      have opt: "k' \<noteq> ''optimize_model''"
        by (rule static_only_keys_deleted(2) [OF that])
      have nex: "k' \<notin> {''model_input'', ''model_output'', ''calibration_data_reader'',
                        ''use_external_data_format''}"
        by (rule static_only_keys_deleted(3) [OF that])
      from nex ex have "k' \<notin> fst ` set explicit" by auto
      then have "map_of kwargs k' = map_of rc k'"
        unfolding kw using dyn by (simp add: map_of_append_right del: map_of_append)
      also have "\<dots> = None"
        unfolding form using del opt by (simp add: map_of_strip_config del: set_append)
      finally show ?thesis .
    qed
    with n dyn show ?thesis by simp
  qed
  from entry ignored resolved removed pruned show ?thesis by blast
qed

theorem static_only_parameters_absent_in_dynamic_mode_witness:
  "map_of (OnnxQuantization_default_config [] \<lparr>execution_provider = ''CPUExecutionProvider''\<rparr>)
       ''calibrate_method''
     = Some (ignore_unless_static
               (PassConfigParam ''str'' (Fixed (VStr ''MinMax''))
                  (Some (Categorical [VStr ''MinMax'', VStr ''Entropy'', VStr ''Percentile'']))
                  NONE))
   \<and> map_of (the_config
        (resolve (Inr INVALID)
           (OnnxQuantization_default_config [] \<lparr>execution_provider = ''CPUExecutionProvider''\<rparr>)
           [(''quant_mode'', VStr ''dynamic'')])) ''calibrate_method'' = None
   \<and> map_of (the_config
        (resolve (Inr INVALID)
           (OnnxQuantization_default_config [] \<lparr>execution_provider = ''CPUExecutionProvider''\<rparr>)
           [(''quant_mode'', VStr ''dynamic'')])) ''quant_mode'' = Some (VStr ''dynamic'')
   \<and> map_of (dynamic_explicit sample_env ''model.onnx'' @
         [(''weight_type'', VObj ''QuantType.QInt8''),
          (''op_types_to_quantize'', VNone), (''nodes_to_quantize'', VNone),
          (''nodes_to_exclude'', VNone), (''per_channel'', VBool False),
          (''reduce_range'', VBool False),
          (''extra_options'',
             VDict
              [(''WeightSymmetric'', VBool True), (''ActivationSymmetric'', VBool False),
               (''CalibMovingAverage'', VBool True), (''extra.Sigmoid.nnapi'', VBool False),
               (''EnableSubgraph'', VBool False), (''ForceQuantizeNoInputCheck'', VBool False),
               (''MatMulConstBOnly'', VBool True)])]) ''calibrate_method'' = None"
proof -
  let ?acc = "\<lparr>execution_provider = ''CPUExecutionProvider''\<rparr>"
  let ?point = "[(''quant_mode'', VStr ''dynamic'')]"
  let ?p = "PassConfigParam ''str'' (Fixed (VStr ''MinMax''))
              (Some (Categorical [VStr ''MinMax'', VStr ''Entropy'', VStr ''Percentile''])) NONE"
  let ?kwargs = "dynamic_explicit sample_env ''model.onnx'' @
         [(''weight_type'', VObj ''QuantType.QInt8''),
          (''op_types_to_quantize'', VNone), (''nodes_to_quantize'', VNone),
          (''nodes_to_exclude'', VNone), (''per_channel'', VBool False),
          (''reduce_range'', VBool False),
          (''extra_options'',
             VDict
              [(''WeightSymmetric'', VBool True), (''ActivationSymmetric'', VBool False),
               (''CalibMovingAverage'', VBool True), (''extra.Sigmoid.nnapi'', VBool False),
               (''EnableSubgraph'', VBool False), (''ForceQuantizeNoInputCheck'', VBool False),
               (''MatMulConstBOnly'', VBool True)])]"
  have h1: "map_of ?point ''quant_mode'' = Some (VStr ''dynamic'')" by simp
  have h2: "(''calibrate_method'', ?p) \<in> set static_optional_config"
    by (simp add: static_optional_config_def)
  have h3: "''calibrate_method'' \<notin> fst ` set ([] :: param_table)" by simp
  have r: "resolve (Inr INVALID) (OnnxQuantization_default_config [] ?acc) ?point
             = Inr (the_config (resolve (Inr INVALID) (OnnxQuantization_default_config [] ?acc) ?point))"
    by code_simp
  have m: "map_of dynamic_config ''quant_mode'' = Some (VStr ''dynamic'')" by code_simp
  have c: "Call ''quantize_dynamic'' ?kwargs
             \<in> set (snd (run_for_config sample_env ''model.onnx'' dynamic_config))"
    by code_simp
  have q: "is_quantizer ''quantize_dynamic''" by (simp add: is_quantizer_def)
  have s: "''calibrate_method'' \<in> set static_only_keys" by code_simp
  note inst = static_only_parameters_absent_in_dynamic_mode
         [OF h1 h2 h3, of ?acc "Inr INVALID" "[]" "[]" sample_env "''model.onnx''"]
  from inst have a: "map_of (OnnxQuantization_default_config [] ?acc) ''calibrate_method''
                      = Some (ignore_unless_static ?p)"
    by (rule conjunct1)
  from inst have b: "\<forall>config.
       resolve (Inr INVALID) (OnnxQuantization_default_config [] ?acc) ?point = Inr config
       \<longrightarrow> map_of config ''quant_mode'' = Some (VStr ''dynamic'')
           \<and> (map_of ?point ''calibrate_method'' = None
                  \<or> map_of ?point ''calibrate_method'' = Some IGNORED
                \<longrightarrow> map_of config ''calibrate_method'' = None)"
    by (elim conjE)
  from inst have d: "\<forall>config name kwargs.
       map_of config ''quant_mode'' = Some (VStr ''dynamic'')
       \<and> Call name kwargs \<in> set (snd (run_for_config sample_env ''model.onnx'' config))
       \<and> is_quantizer name
       \<longrightarrow> name = ''quantize_dynamic''
           \<and> (\<forall>k' \<in> set static_only_keys. map_of kwargs k' = None)"
    by (elim conjE)
  from b [rule_format, OF r]
  have b1: "map_of (the_config (resolve (Inr INVALID) (OnnxQuantization_default_config [] ?acc)
                       ?point)) ''quant_mode'' = Some (VStr ''dynamic'')"
    and b2: "map_of (the_config (resolve (Inr INVALID) (OnnxQuantization_default_config [] ?acc)
                       ?point)) ''calibrate_method'' = None"
    by simp_all
  from d [rule_format, of dynamic_config "''quantize_dynamic''" ?kwargs] m c q
  have "\<forall>k' \<in> set static_only_keys. map_of ?kwargs k' = None" by blast
  with s have e: "map_of ?kwargs ''calibrate_method'' = None" by blast
  from a b2 b1 e show ?thesis by (intro conjI)
qed

end
